theory Spec2Isabelle
  imports Complex_Main "HOL-Library.Word"
begin

section \<open>Numbers, buffers and errors\<close>

text \<open>
  The plugin is TypeScript. A JavaScript \<open>number\<close> is modelled as an exact rational: every
  number the plugin handles is a decoded unsigned integer of at most 32 bits or such an
  integer divided by 2, 100 or 50, and the only operations on them are comparison and
  equality. The integers and their halves are exact in JavaScript as well; the quotients
  by 100 and 50 are rounded there to the nearest double, which keeps distinct raw values
  distinct and does not move a value across an integer threshold. A Node \<open>Buffer\<close> is a
  list of bytes. A thrown exception is a value of type \<open>error\<close>.
\<close>

type_synonym byte = "8 word"
type_synonym buffer = "byte list"
type_synonym number = rat

text \<open>
  A JavaScript string that is parsed is a list of UTF-16 code units; \<open>ascii\<close> writes one
  from its ASCII text.
\<close>

type_synonym jsstring = "nat list"

definition ascii :: "string \<Rightarrow> jsstring" where
  "ascii str = map of_char str"

datatype error = StructError | TransportError

section \<open>Payload codec\<close>

subsection \<open>The binary unpacker\<close>

text \<open>
  Modelled from the spec: \<open>struct.unpack\<close> belongs to the \<open>python-struct\<close> package, which
  is imported by \<open>index.ts\<close> but is not part of the sources. The format characters used by
  the plugin are \<open>B\<close> (unsigned 8-bit), \<open>H\<close> (unsigned 16-bit) and \<open>L\<close> (unsigned 32-bit),
  optionally preceded by \<open><\<close> (little-endian, no padding); multi-byte fields are read
  little-endian. The fields are read one after the other from the start of the buffer, as
  the spec has it for the identity block (at least 7 bytes, the first 2 the tag, the next 4
  the serial, the rest unused): bytes after the last field are ignored, and a buffer that
  ends before the last field is a decode failure. The format without a prefix used for
  the payload needs no padding, since its 16-bit fields start at the even offset 4.
\<close>

fun le_value :: "buffer \<Rightarrow> nat" where
  "le_value [] = 0"
| "le_value (b # bs) = unat b + 256 * le_value bs"

definition field_size :: "char \<Rightarrow> nat option" where
  "field_size c =
     (if c = CHR ''B'' then Some 1
      else if c = CHR ''H'' then Some 2
      else if c = CHR ''L'' then Some 4
      else None)"

definition format_body :: "string \<Rightarrow> string" where
  "format_body fmt =
     (case fmt of [] \<Rightarrow> [] | c # cs \<Rightarrow> if c = CHR ''<'' then cs else fmt)"

fun sizeOf :: "string \<Rightarrow> nat option" where
  "sizeOf [] = Some 0"
| "sizeOf (c # cs) =
     (case field_size c of
        None \<Rightarrow> None
      | Some n \<Rightarrow> (case sizeOf cs of None \<Rightarrow> None | Some m \<Rightarrow> Some (n + m)))"

fun read_fields :: "string \<Rightarrow> buffer \<Rightarrow> nat list" where
  "read_fields [] buf = []"
| "read_fields (c # cs) buf =
     (case field_size c of
        None \<Rightarrow> []
      | Some n \<Rightarrow> le_value (take n buf) # read_fields cs (drop n buf))"

definition unpack :: "string \<Rightarrow> buffer \<Rightarrow> error + nat list" where
  \<comment> \<open>Modelled from the spec: \<open>struct.unpack\<close> of the \<open>python-struct\<close> package.\<close>
  "unpack fmt buf =
     (case sizeOf (format_body fmt) of
        None \<Rightarrow> Inl StructError
      | Some n \<Rightarrow>
          if length buf < n then Inl StructError
          else Inr (read_fields (format_body fmt) buf))"

subsection \<open>Decoding the characteristic payload\<close>

text \<open>
  Lines 263 to 272 of \<open>index.ts\<close> (200 to 209 of the older variant): the buffer is unpacked
  with the format \<open>BBBBHHHHHHHH\<close> and seven values are derived from the twelve fields.
  The indices 1 and 4 to 9 are in range whenever the unpacker succeeds, since it then
  returns twelve fields. The code has no length test of its own.
\<close>

record reading =
  rHumidity :: number
  rRadonStAvg :: number
  rRadonLtAvg :: number
  rTemp :: number
  rPressure :: number
  rCo2 :: number
  rVoc :: number

definition derive :: "nat list \<Rightarrow> reading" where
  "derive data =
     \<lparr> rHumidity = of_nat (data ! 1) / 2,
       rRadonStAvg = of_nat (data ! 4),
       rRadonLtAvg = of_nat (data ! 5),
       rTemp = of_nat (data ! 6) / 100,
       rPressure = of_nat (data ! 7) / 50,
       rCo2 = of_nat (data ! 8) * 1,
       rVoc = of_nat (data ! 9) * 1 \<rparr>"

definition decodePayload :: "buffer \<Rightarrow> error + reading" where
  "decodePayload buf =
     (case unpack ''BBBBHHHHHHHH'' buf of
        Inl e \<Rightarrow> Inl e
      | Inr data \<Rightarrow> Inr (derive data))"

text \<open>The bytes of a buffer read as the unsigned fields of the wire format.\<close>

definition u8_at :: "buffer \<Rightarrow> nat \<Rightarrow> nat" where
  "u8_at buf i = unat (buf ! i)"

definition u16le_at :: "buffer \<Rightarrow> nat \<Rightarrow> nat" where
  "u16le_at buf i = unat (buf ! i) + 256 * unat (buf ! (i + 1))"

definition u32le_at :: "buffer \<Rightarrow> nat \<Rightarrow> nat" where
  "u32le_at buf i =
     unat (buf ! i) + 256 * unat (buf ! (i + 1)) + 65536 * unat (buf ! (i + 2))
       + 16777216 * unat (buf ! (i + 3))"

text \<open>
  The twelve fields of the payload layout: four unsigned 8-bit fields at the offsets 0 to 3,
  then eight little-endian unsigned 16-bit fields at the even offsets 4 to 18.
\<close>

definition payload_fields :: "buffer \<Rightarrow> nat list" where
  "payload_fields buf =
     [u8_at buf 0, u8_at buf 1, u8_at buf 2, u8_at buf 3,
      u16le_at buf 4, u16le_at buf 6, u16le_at buf 8, u16le_at buf 10,
      u16le_at buf 12, u16le_at buf 14, u16le_at buf 16, u16le_at buf 18]"

section \<open>Air-quality classifier\<close>

text \<open>
  Lines 293 to 323 of \<open>index.ts\<close>. The variable \<open>aq\<close> starts at 0 and is rewritten by four
  consecutive blocks, one per quantity; each block is a function from the current value
  of \<open>aq\<close> to the next one.
\<close>

definition humidity_step :: "number \<Rightarrow> int \<Rightarrow> int" where
  "humidity_step humidity aq =
     (if humidity \<ge> 70 \<or> humidity < 25 then 5
      else if humidity \<ge> 60 \<or> humidity < 30 then 3
      else 2)"

definition radon_step :: "number \<Rightarrow> int \<Rightarrow> int" where
  "radon_step radonStAvg aq =
     (if radonStAvg \<ge> 150 then max aq 5
      else if radonStAvg \<ge> 100 then max aq 3
      else max aq 2)"

definition co2_step :: "number \<Rightarrow> int \<Rightarrow> int" where
  "co2_step co2 aq =
     (if co2 \<ge> 1500 then max aq 5
      else if co2 \<ge> 1200 then max aq 4
      else if co2 \<ge> 800 then max aq 3
      else max aq 2)"

definition voc_step :: "number \<Rightarrow> int \<Rightarrow> int" where
  "voc_step voc aq =
     (if voc \<ge> 2000 then max aq 5
      else if voc \<ge> 250 then max aq 3
      else max aq 2)"

definition airQuality :: "number \<Rightarrow> number \<Rightarrow> number \<Rightarrow> number \<Rightarrow> int" where
  "airQuality humidity radonStAvg co2 voc =
     (let aq = 0;
          aq = humidity_step humidity aq;
          aq = radon_step radonStAvg aq;
          aq = co2_step co2 aq;
          aq = voc_step voc aq
      in aq)"

text \<open>
  The older variant of the file (lines 225 to 253) differs in the CO2 block only, which has
  three bands with the upper threshold at 1000.
\<close>

definition co2_step_old :: "number \<Rightarrow> int \<Rightarrow> int" where
  "co2_step_old co2 aq =
     (if co2 \<ge> 1000 then max aq 5
      else if co2 \<ge> 800 then max aq 3
      else max aq 2)"

definition airQuality_old :: "number \<Rightarrow> number \<Rightarrow> number \<Rightarrow> number \<Rightarrow> int" where
  "airQuality_old humidity radonStAvg co2 voc =
     (let aq = 0;
          aq = humidity_step humidity aq;
          aq = radon_step radonStAvg aq;
          aq = co2_step_old co2 aq;
          aq = voc_step voc aq
      in aq)"

text \<open>
  The sub-score of a quantity is what its block makes of the initial value 0 of \<open>aq\<close>,
  that is, the score of that quantity evaluated on its own.
\<close>

definition humidity_score :: "number \<Rightarrow> int" where
  "humidity_score humidity = humidity_step humidity 0"

definition radon_score :: "number \<Rightarrow> int" where
  "radon_score radonStAvg = radon_step radonStAvg 0"

definition co2_score :: "number \<Rightarrow> int" where
  "co2_score co2 = co2_step co2 0"

definition co2_score_old :: "number \<Rightarrow> int" where
  "co2_score_old co2 = co2_step_old co2 0"

definition voc_score :: "number \<Rightarrow> int" where
  "voc_score voc = voc_step voc 0"

section \<open>Configuration and session state\<close>

text \<open>
  The fields of \<open>Config\<close> that the session logic reads. An optional field that is absent
  is \<open>None\<close>. A service object exists exactly when its facet is not disabled, and the
  InfluxDB writer exists exactly when its four settings are truthy (present and not the
  empty string).
\<close>

record config =
  serialNumber :: "jsstring option"
  frequency :: "number option"
  disableAQ :: bool
  disableCO2 :: bool
  disableHumidity :: bool
  disableTemp :: bool
  influxURL :: "string option"
  influxToken :: "string option"
  influxOrg :: "string option"
  influxBucket :: "string option"

definition truthy :: "string option \<Rightarrow> bool" where
  "truthy v = (case v of None \<Rightarrow> False | Some str \<Rightarrow> str \<noteq> [])"

definition aqService :: "config \<Rightarrow> bool" where
  "aqService cfg = (\<not> disableAQ cfg)"

definition co2Service :: "config \<Rightarrow> bool" where
  "co2Service cfg = (\<not> disableCO2 cfg)"

definition humidityService :: "config \<Rightarrow> bool" where
  "humidityService cfg = (\<not> disableHumidity cfg)"

definition tempService :: "config \<Rightarrow> bool" where
  "tempService cfg = (\<not> disableTemp cfg)"

definition influx :: "config \<Rightarrow> bool" where
  "influx cfg =
     (truthy (influxURL cfg) \<and> truthy (influxToken cfg) \<and> truthy (influxOrg cfg)
        \<and> truthy (influxBucket cfg))"

text \<open>
  The interval of the main timer, \<open>1000 * Math.max(60, frequency)\<close>; with the frequency
  absent the product is NaN, written \<open>None\<close>.
\<close>

definition freq :: "config \<Rightarrow> number option" where
  "freq cfg = (case frequency cfg of None \<Rightarrow> None | Some f \<Rightarrow> Some (1000 * max 60 f))"

record nobleAdvertisement =
  manufacturerData :: "buffer option"

record noblePeripheral =
  address :: nat
  advertisement :: "nobleAdvertisement option"
  rssi :: number

text \<open>
  Everything the plugin does to the outside world is recorded, in order, in a trace of
  effects: log lines, radio commands, waits, queue submissions, updates of HomeKit
  characteristics and InfluxDB writes. A log line is recorded by its level and the fixed
  part of its text.
\<close>

datatype task = MainTask | ScanTask | ScanThenMainTask

datatype characteristic =
  AirQuality | VOCDensity | CarbonDioxideLevel | CurrentRelativeHumidity | CurrentTemperature

datatype effect =
    LogInfo string
  | LogWarn string
  | LogError
  | LogDebug string
  | ClearMainTimer
  | QueueAdd task
  | Sleep nat
  | ConnectAsync
  | DisconnectAsync
  | CancelConnect
  | UpdateRssi
  | DiscoverCharacteristics
  | ReadAsync
  | UpdateValue characteristic number
  | WritePoint "(string \<times> number) list"
  | Flush
  | SetScanTimeout nat
  | ClearScanTimeout
  | OnDiscover
  | RemoveDiscover
  | StartScanning
  | StopScanning
  | ResolveAfter nat

datatype timer = Timeout "number option"

record last_state =
  aq :: int
  voc :: number
  co2 :: number
  humidity :: number
  temp :: number

record state =
  lastState :: last_state
  mainTimer :: "timer option"
  scanning :: bool
  peripheral :: "noblePeripheral option"
  effects :: "effect list"

definition initial :: state where
  "initial =
     \<lparr> lastState = \<lparr> aq = - 1, voc = - 1, co2 = - 1, humidity = - 1, temp = - 1 \<rparr>,
       mainTimer = None, scanning = False, peripheral = None, effects = [] \<rparr>"

definition emit :: "effect list \<Rightarrow> state \<Rightarrow> state" where
  "emit es s = s\<lparr>effects := effects s @ es\<rparr>"

text \<open>The effects added between two states, and the updates of one characteristic among them.\<close>

definition emitted :: "state \<Rightarrow> state \<Rightarrow> effect list" where
  "emitted s s' = drop (length (effects s)) (effects s')"

fun updates :: "characteristic \<Rightarrow> effect list \<Rightarrow> number list" where
  "updates ch [] = []"
| "updates ch (UpdateValue ch' v # es) =
     (if ch' = ch then v # updates ch es else updates ch es)"
| "updates ch (_ # es) = updates ch es"

fun is_sink :: "effect \<Rightarrow> bool" where
  "is_sink (UpdateValue _ _) = True"
| "is_sink (WritePoint _) = True"
| "is_sink Flush = True"
| "is_sink _ = False"

section \<open>Device locator\<close>

subsection \<open>Reading the configured serial number\<close>

text \<open>
  JavaScript's \<open>parseInt(string, 10)\<close> on a string of UTF-16 code units: leading white
  space is skipped (the white space and line terminator characters of ECMAScript: tab,
  line feed, vertical tab, form feed, carriage return, space, no-break space, U+1680,
  U+2000 to U+200A, U+2028, U+2029, U+202F, U+205F, U+3000 and U+FEFF), one sign is
  read, then the longest run of the digits 0 to 9; without a digit the result is NaN,
  written \<open>None\<close>. An absent string is converted to the text \<open>undefined\<close>, which has no
  digit. The value is exact here; JavaScript rounds it to a double from 2^53 on, where it
  can no longer equal a 32-bit serial number in either reading.
\<close>

definition isStrWhiteSpaceChar :: "nat \<Rightarrow> bool" where
  "isStrWhiteSpaceChar c =
     (c \<in> set [0x09, 0x0A, 0x0B, 0x0C, 0x0D, 0x20, 0xA0, 0x1680, 0x2028, 0x2029, 0x202F,
               0x205F, 0x3000, 0xFEFF]
      \<or> (0x2000 \<le> c \<and> c \<le> 0x200A))"

definition isDigit :: "nat \<Rightarrow> bool" where
  "isDigit c = (48 \<le> c \<and> c \<le> 57)"

fun decimal :: "nat \<Rightarrow> jsstring \<Rightarrow> nat" where
  "decimal acc [] = acc"
| "decimal acc (c # cs) = decimal (10 * acc + (c - 48)) cs"

definition parseInt :: "jsstring option \<Rightarrow> int option" where
  "parseInt v =
     (case v of
        None \<Rightarrow> None
      | Some inputString \<Rightarrow>
          (let S = dropWhile isStrWhiteSpaceChar inputString;
               sign = (case S of [] \<Rightarrow> 1 | c # cs \<Rightarrow> if c = 45 then - 1 else 1);
               S = (case S of [] \<Rightarrow> [] | c # cs \<Rightarrow> if c = 43 \<or> c = 45 then cs else S);
               Z = takeWhile isDigit S
           in if Z = [] then None else Some (sign * int (decimal 0 Z))))"

subsection \<open>Scanning\<close>

text \<open>
  Lines 388 to 431. The body of the promise executor is \<open>scan\<close>; the closures it installs
  are \<open>fin\<close>, \<open>scanTimeout\<close> (the 50 second watchdog) and \<open>onDiscover\<close> (the advertisement
  listener). The promise is resolved only by \<open>fin\<close>, three seconds after it ran.
\<close>

definition scan :: "state \<Rightarrow> state" where
  "scan s =
     (if scanning s = True then s
      else emit [LogInfo ''scanning...'', SetScanTimeout 50000, OnDiscover, StartScanning]
             (s\<lparr>scanning := True\<rparr>))"

definition fin :: "state \<Rightarrow> state" where
  "fin s =
     emit [ClearScanTimeout, StopScanning, RemoveDiscover, ResolveAfter 3000]
       (s\<lparr>scanning := False\<rparr>)"

definition scanTimeout :: "state \<Rightarrow> state" where
  "scanTimeout s = fin (emit [LogWarn ''scan has timed out.''] s)"

definition manufacturerDataOf :: "noblePeripheral \<Rightarrow> buffer option" where
  "manufacturerDataOf p =
     (case advertisement p of None \<Rightarrow> None | Some a \<Rightarrow> manufacturerData a)"

definition onDiscover :: "config \<Rightarrow> noblePeripheral \<Rightarrow> state \<Rightarrow> error + state" where
  "onDiscover cfg p s =
     (case manufacturerDataOf p of
        None \<Rightarrow> Inr s
      | Some md \<Rightarrow>
          if length md > 6 then
            (case unpack ''<HLH'' md of
               Inl e \<Rightarrow> Inl e
             | Inr deviceInfo \<Rightarrow>
                 if deviceInfo ! 0 = 0x0334 then
                   (let sn = deviceInfo ! 1 in
                    if parseInt (serialNumber cfg) = Some (int sn)
                    then Inr (fin (emit [LogInfo ''found''] (s\<lparr>peripheral := Some p\<rparr>)))
                    else Inr s)
                 else Inr s)
          else Inr s)"

section \<open>Session driver\<close>

subsection \<open>What the radio does during one cycle\<close>

text \<open>
  One call of \<open>main\<close> asks the radio adapter and the peripheral a fixed sequence of
  questions; their answers are the environment of the cycle. A phase that races against a
  timer has one answer for each way the race can end.
\<close>

datatype peri_state = Disconnected | Connecting | Connected | Disconnecting | ErrorState

datatype connect_outcome =
    ConnectOK \<comment> \<open>\<open>connectAsync\<close> resolves within 3 seconds\<close>
  | ConnectRejected \<comment> \<open>\<open>connectAsync\<close> rejects within 3 seconds\<close>
  | ConnectTimeout \<comment> \<open>\<open>connectAsync\<close> is still pending after 3 seconds\<close>

datatype read_outcome =
    ReadOK buffer \<comment> \<open>the characteristic is read within 3 seconds\<close>
  | ReadLate buffer \<comment> \<open>it is read while the cleanup after the timeout is under way\<close>
  | ReadRejected \<comment> \<open>discovery or the read rejects before the race is decided\<close>
  | ReadTimeout \<comment> \<open>nothing has been read when the race is decided\<close>

record env =
  poweredOn :: bool
  periState :: peri_state
  staleDisconnectOK :: bool
  connectOutcome :: connect_outcome
  readOutcome :: read_outcome
  disconnectOK :: bool
  flushOK :: bool

text \<open>The outcome of a phase: go on, leave \<open>main\<close> normally, or leave it with an exception.\<close>

datatype phase = Proceed | Return | Throw error

subsection \<open>Phases of the cycle\<close>

text \<open>
  Lines 171 to 190: a handle that is not disconnected is reconciled first. A handle in
  the error state is dropped and a new scan is queued.
\<close>

definition reconcile :: "env \<Rightarrow> state \<Rightarrow> phase \<times> state" where
  "reconcile e s =
     (if periState e \<noteq> Disconnected then
        (let s = emit [LogWarn ''Peripheral state''] s in
         if periState e = Connected then
           (if staleDisconnectOK e then (Proceed, emit [DisconnectAsync] s)
            else (Throw TransportError, emit [DisconnectAsync] s))
         else if periState e = Connecting then (Proceed, emit [CancelConnect] s)
         else if periState e = ErrorState then
           (Return,
            emit [Sleep 3000, QueueAdd ScanTask, CancelConnect, DisconnectAsync]
              (s\<lparr>peripheral := None\<rparr>))
         else (Proceed, s))
      else (Proceed, s))"

text \<open>
  Lines 194 to 205, the local helper \<open>disconnect\<close>: the disconnect is given five seconds,
  and its failure is only logged.
\<close>

definition disconnect :: "env \<Rightarrow> effect list" where
  "disconnect e = (if disconnectOK e then [DisconnectAsync] else [DisconnectAsync, LogError])"

text \<open>
  Lines 207 to 232, the connect race; the result is the flag \<open>done\<close>. The effects of the
  two racing branches are listed branch by branch. After a rejection the flag stays
  false, so the timer branch still cancels the connect when its three seconds are over.
\<close>

definition connect :: "env \<Rightarrow> state \<Rightarrow> bool \<times> state" where
  "connect e s =
     (case connectOutcome e of
        ConnectOK \<Rightarrow> (True, emit [ConnectAsync] s)
      | ConnectRejected \<Rightarrow>
          (False,
           emit ([ConnectAsync, LogError] @ disconnect e
                   @ [LogWarn ''connect has timed out.'', CancelConnect]) s)
      | ConnectTimeout \<Rightarrow>
          (False, emit [ConnectAsync, LogWarn ''connect has timed out.'', CancelConnect] s))"

text \<open>Lines 240 to 255, the read race; the result is the buffer, if one was read.\<close>

definition getCollection :: "env \<Rightarrow> state \<Rightarrow> (error + buffer option) \<times> state" where
  "getCollection e s =
     (case readOutcome e of
        ReadOK buf \<Rightarrow>
          (Inr (Some buf),
           emit ([UpdateRssi, DiscoverCharacteristics, ReadAsync] @ disconnect e) s)
      | ReadLate buf \<Rightarrow>
          (Inr (Some buf),
           emit ([UpdateRssi, DiscoverCharacteristics, LogWarn ''get collection has timed out.'']
                   @ disconnect e @ [ReadAsync] @ disconnect e) s)
      | ReadRejected \<Rightarrow>
          (Inl TransportError, emit [UpdateRssi, DiscoverCharacteristics] s)
      | ReadTimeout \<Rightarrow>
          (Inr None,
           emit ([UpdateRssi, DiscoverCharacteristics, LogWarn ''get collection has timed out.'']
                   @ disconnect e) s))"

subsection \<open>Publishing\<close>

text \<open>
  Lines 291 to 358. Each facet is published only if its service exists and the new value
  differs from the one in \<open>lastState\<close>, which is then overwritten. The classifier is a
  parameter, so that the same text covers both variants of the file.
\<close>

definition publish_aq ::
    "(number \<Rightarrow> number \<Rightarrow> number \<Rightarrow> number \<Rightarrow> int) \<Rightarrow> config \<Rightarrow> reading \<Rightarrow> state \<Rightarrow> state" where
  "publish_aq classify cfg r s =
     (if aqService cfg then
        (let a = classify (rHumidity r) (rRadonStAvg r) (rCo2 r) (rVoc r) in
         if a \<noteq> aq (lastState s) \<or> rVoc r \<noteq> voc (lastState s) then
           emit [UpdateValue AirQuality (of_int a), UpdateValue VOCDensity (rVoc r)]
             (s\<lparr>lastState := (lastState s)\<lparr>aq := a, voc := rVoc r\<rparr>\<rparr>)
         else s)
      else s)"

definition publish_co2 :: "config \<Rightarrow> reading \<Rightarrow> state \<Rightarrow> state" where
  "publish_co2 cfg r s =
     (if co2Service cfg then
        (if rCo2 r \<noteq> co2 (lastState s) then
           emit [UpdateValue CarbonDioxideLevel (rCo2 r)]
             (s\<lparr>lastState := (lastState s)\<lparr>co2 := rCo2 r\<rparr>\<rparr>)
         else s)
      else s)"

definition publish_humidity :: "config \<Rightarrow> reading \<Rightarrow> state \<Rightarrow> state" where
  "publish_humidity cfg r s =
     (if humidityService cfg then
        (if rHumidity r \<noteq> humidity (lastState s) then
           emit [UpdateValue CurrentRelativeHumidity (rHumidity r)]
             (s\<lparr>lastState := (lastState s)\<lparr>humidity := rHumidity r\<rparr>\<rparr>)
         else s)
      else s)"

definition publish_temp :: "config \<Rightarrow> reading \<Rightarrow> state \<Rightarrow> state" where
  "publish_temp cfg r s =
     (if tempService cfg then
        (if rTemp r \<noteq> temp (lastState s) then
           emit [UpdateValue CurrentTemperature (rTemp r)]
             (s\<lparr>lastState := (lastState s)\<lparr>temp := rTemp r\<rparr>\<rparr>)
         else s)
      else s)"

definition publish ::
    "(number \<Rightarrow> number \<Rightarrow> number \<Rightarrow> number \<Rightarrow> int) \<Rightarrow> config \<Rightarrow> reading \<Rightarrow> state \<Rightarrow> state" where
  "publish classify cfg r s =
     (let s = publish_aq classify cfg r s;
          s = publish_co2 cfg r s;
          s = publish_humidity cfg r s;
          s = publish_temp cfg r s
      in s)"

subsection \<open>Telemetry\<close>

text \<open>Lines 362 to 383: one point per reading; a failing write is logged.\<close>

definition point :: "noblePeripheral \<Rightarrow> reading \<Rightarrow> (string \<times> number) list" where
  "point peri r =
     [(''rssi'', rssi peri), (''humidity'', rHumidity r), (''radonStAvg'', rRadonStAvg r),
      (''radonLtAvg'', rRadonLtAvg r), (''temp'', rTemp r), (''pressure'', rPressure r),
      (''co2'', rCo2 r), (''voc'', rVoc r)]"

definition writeInflux :: "config \<Rightarrow> env \<Rightarrow> noblePeripheral \<Rightarrow> reading \<Rightarrow> state \<Rightarrow> state" where
  "writeInflux cfg e peri r s =
     (if influx cfg then
        emit ([LogInfo ''write points to InfluxDB'', WritePoint (point peri r), Flush]
                @ (if flushOK e then [] else [LogError]) @ [LogDebug ''point:'']) s
      else s)"

subsection \<open>The cycle\<close>

text \<open>
  Lines 139 to 386. The result is the updated session state and, if the promise of
  \<open>main\<close> is rejected, the error. The sentinel test of lines 284 to 287 comes after the
  decoding and before any publishing.
\<close>

definition main :: "config \<Rightarrow> env \<Rightarrow> state \<Rightarrow> error option \<times> state" where
  "main cfg e s =
     (let s = (if mainTimer s \<noteq> None then emit [ClearMainTimer] s else s) in
      if \<not> poweredOn e then
        (None,
         (emit [LogWarn ''Bluetooth LE Power is off. will retry in 10 seconds...''] s)
           \<lparr>mainTimer := Some (Timeout (Some 10000))\<rparr>)
      else
        (case peripheral s of
           None \<Rightarrow>
             if scanning s = True then (None, s)
             else (None, emit [QueueAdd ScanThenMainTask] s)
         | Some peri \<Rightarrow>
             (let s = s\<lparr>mainTimer := Some (Timeout (freq cfg))\<rparr> in
              case reconcile e s of
                (Throw err, s) \<Rightarrow> (Some err, s)
              | (Return, s) \<Rightarrow> (None, s)
              | (Proceed, s) \<Rightarrow>
                  (let s = emit [LogInfo ''connect to''] s in
                   case connect e s of
                     (False, s) \<Rightarrow> (None, emit [Sleep 3000, QueueAdd MainTask] s)
                   | (True, s) \<Rightarrow>
                       (case getCollection e s of
                          (Inl err, s) \<Rightarrow> (Some err, s)
                        | (Inr None, s) \<Rightarrow> (None, emit [Sleep 3000, QueueAdd MainTask] s)
                        | (Inr (Some buf), s) \<Rightarrow>
                            (case decodePayload buf of
                               Inl err \<Rightarrow> (Some err, s)
                             | Inr r \<Rightarrow>
                                 (let s = emit [LogInfo ''rssi data''] s in
                                  if rCo2 r = 0xFFFF \<or> rVoc r = 0xFFFF then
                                    (None, emit [LogWarn ''sensor value is invalid.''] s)
                                  else
                                    (let s = publish airQuality cfg r s;
                                         s = writeInflux cfg e peri r s
                                     in (None, emit [Sleep 3000] s)))))))))"

section \<open>Operation serializer\<close>

text \<open>
  Modelled from the spec: \<open>globalQueue\<close> is an instance of the \<open>promise-queue\<close> package,
  constructed in line 12 of \<open>index.ts\<close> with the concurrency limit 1 and no bound on the
  number of waiting tasks; the package is not part of the sources. The spec describes it
  as a mutual-exclusion task queue with unbounded capacity and a concurrency limit: a
  submitted task waits in first-in first-out order and is started as soon as fewer tasks
  than the limit are in execution; when a task in execution settles, with success or with
  failure, the next waiting task is started.

  The queue reacts to two inputs: a task is submitted, or a task in execution settles.
  Its history records every start and every completion in order.
\<close>

datatype 'a qevent = Started 'a | Settled 'a bool

record 'a serializer =
  maxPending :: nat
  waiting :: "'a list"
  running :: "'a list"
  history :: "'a qevent list"

definition globalQueue :: "'a serializer" where
  "globalQueue = \<lparr> maxPending = 1, waiting = [], running = [], history = [] \<rparr>"

definition dequeue :: "'a serializer \<Rightarrow> 'a serializer" where
  \<comment> \<open>Modelled from the spec: the next waiting task starts when the slot is free.\<close>
  "dequeue q =
     (if length (running q) \<ge> maxPending q then q
      else (case waiting q of
              [] \<Rightarrow> q
            | t # ts \<Rightarrow>
                q\<lparr>waiting := ts, running := running q @ [t],
                  history := history q @ [Started t]\<rparr>))"

definition queue_add :: "'a \<Rightarrow> 'a serializer \<Rightarrow> 'a serializer" where
  \<comment> \<open>Modelled from the spec: \<open>globalQueue.add\<close>, the submission of a task.\<close>
  "queue_add t q = dequeue (q\<lparr>waiting := waiting q @ [t]\<rparr>)"

definition settle :: "'a \<Rightarrow> bool \<Rightarrow> 'a serializer \<Rightarrow> 'a serializer" where
  \<comment> \<open>Modelled from the spec: the promise of a task in execution settles.\<close>
  "settle t ok q =
     (if t \<in> set (running q) then
        dequeue (q\<lparr>running := remove1 t (running q),
                   history := history q @ [Settled t ok]\<rparr>)
      else q)"

datatype 'a qinput = Add 'a | Settle 'a bool

fun react :: "'a qinput \<Rightarrow> 'a serializer \<Rightarrow> 'a serializer" where
  "react (Add t) q = queue_add t q"
| "react (Settle t ok) q = settle t ok q"

fun run :: "'a qinput list \<Rightarrow> 'a serializer \<Rightarrow> 'a serializer" where
  "run [] q = q"
| "run (i # ins) q = run ins (react i q)"

text \<open>The tasks submitted by a sequence of inputs, and the tasks started and completed in a history.\<close>

fun admitted :: "'a qinput list \<Rightarrow> 'a list" where
  "admitted [] = []"
| "admitted (Add t # ins) = t # admitted ins"
| "admitted (Settle t ok # ins) = admitted ins"

fun started :: "'a qevent list \<Rightarrow> 'a list" where
  "started [] = []"
| "started (Started t # es) = t # started es"
| "started (Settled t ok # es) = started es"

fun completed :: "'a qevent list \<Rightarrow> 'a list" where
  "completed [] = []"
| "completed (Started t # es) = completed es"
| "completed (Settled t ok # es) = t # completed es"

text \<open>
  A history is serial if every start happens while no task is in execution and every
  completion is that of the task in execution. \<open>serial_from cur es\<close> follows the history
  \<open>es\<close> from the moment when \<open>cur\<close> is in execution and returns the task in execution at
  the end, or \<open>None\<close> if two executions overlap.
\<close>

fun serial_from :: "'a option \<Rightarrow> 'a qevent list \<Rightarrow> 'a option option" where
  "serial_from cur [] = Some cur"
| "serial_from cur (Started t # es) = (if cur = None then serial_from (Some t) es else None)"
| "serial_from cur (Settled t ok # es) = (if cur = Some t then serial_from None es else None)"

definition in_execution :: "'a serializer \<Rightarrow> 'a option" where
  "in_execution q = (case running q of [] \<Rightarrow> None | t # ts \<Rightarrow> Some t)"

section \<open>Auxiliary notions for the statements\<close>

text \<open>
  The condition under which the air-quality facet is published, the effects of the
  reconciliation of a stale handle that does not end the cycle, and the condition under
  which a cycle with a cached handle gets as far as the connect phase.
\<close>

definition aq_differs ::
    "(number \<Rightarrow> number \<Rightarrow> number \<Rightarrow> number \<Rightarrow> int) \<Rightarrow> config \<Rightarrow> reading \<Rightarrow> state \<Rightarrow> bool" where
  "aq_differs classify cfg r s =
     (aqService cfg \<and>
      (classify (rHumidity r) (rRadonStAvg r) (rCo2 r) (rVoc r) \<noteq> aq (lastState s)
       \<or> rVoc r \<noteq> voc (lastState s)))"

definition reconciled :: "env \<Rightarrow> effect list" where
  "reconciled e =
     (if periState e = Disconnected then []
      else LogWarn ''Peripheral state'' #
        (if periState e = Connected then [DisconnectAsync]
         else if periState e = Connecting then [CancelConnect]
         else []))"

definition reaches_connect :: "env \<Rightarrow> bool" where
  "reaches_connect e =
     (poweredOn e \<and> periState e \<noteq> ErrorState
      \<and> (if periState e = Connected then staleDisconnectOK e else True))"

text \<open>
  A cycle reads the buffer \<open>buf\<close> if it gets as far as the connect phase, the connect
  succeeds and the characteristic is read before the read race is decided. The effects
  of such a cycle up to the decoding are \<open>acquired\<close>.
\<close>

definition reads_buffer :: "env \<Rightarrow> buffer \<Rightarrow> bool" where
  "reads_buffer e buf =
     (reaches_connect e \<and> connectOutcome e = ConnectOK
      \<and> (readOutcome e = ReadOK buf \<or> readOutcome e = ReadLate buf))"

definition acquired :: "env \<Rightarrow> state \<Rightarrow> buffer \<Rightarrow> effect list" where
  "acquired e s buf =
     (if mainTimer s \<noteq> None then [ClearMainTimer] else [])
       @ reconciled e @ [LogInfo ''connect to'', ConnectAsync]
       @ (if readOutcome e = ReadOK buf
          then [UpdateRssi, DiscoverCharacteristics, ReadAsync] @ disconnect e
          else [UpdateRssi, DiscoverCharacteristics,
                LogWarn ''get collection has timed out.'']
                 @ disconnect e @ [ReadAsync] @ disconnect e)
       @ [LogInfo ''rssi data'']"

definition acquired_state :: "config \<Rightarrow> env \<Rightarrow> state \<Rightarrow> buffer \<Rightarrow> state" where
  "acquired_state cfg e s buf =
     s\<lparr>mainTimer := Some (Timeout (freq cfg)), effects := effects s @ acquired e s buf\<rparr>"

text \<open>The effects of the telemetry step.\<close>

definition written :: "config \<Rightarrow> env \<Rightarrow> noblePeripheral \<Rightarrow> reading \<Rightarrow> effect list" where
  "written cfg e peri r =
     (if influx cfg then
        [LogInfo ''write points to InfluxDB'', WritePoint (point peri r), Flush]
          @ (if flushOK e then [] else [LogError]) @ [LogDebug ''point:'']
      else [])"

text \<open>The invariant of the serializer after the inputs \<open>ins\<close>.\<close>

definition queue_inv :: "'a qinput list \<Rightarrow> 'a serializer \<Rightarrow> bool" where
  "queue_inv ins q =
     (maxPending q = 1 \<and> length (running q) \<le> 1
      \<and> serial_from None (history q) = Some (in_execution q)
      \<and> completed (history q) @ running q @ waiting q = admitted ins
      \<and> started (history q) = completed (history q) @ running q
      \<and> (if running q = [] then waiting q = [] else True))"

subsection \<open>Sample inputs\<close>

text \<open>
  A configuration with every facet and the telemetry enabled, an advertisement of the
  configured device, a payload (humidity 70, radon 16 and 17, 25 degrees, 1000 hPa,
  800 ppm CO2, 100 ppb VOC), the same payload with the CO2 field at the sentinel value
  0xFFFF, an advertisement of the same device with two more bytes of manufacturer data,
  and the radio behaving well.
\<close>

definition sample_config :: config where
  "sample_config =
     \<lparr> serialNumber = Some (ascii ''2930008249''), frequency = Some 60,
       disableAQ = False, disableCO2 = False, disableHumidity = False, disableTemp = False,
       influxURL = Some ''http://localhost:8086'', influxToken = Some ''token'',
       influxOrg = Some ''org'', influxBucket = Some ''bucket'' \<rparr>"

definition sample_peripheral :: noblePeripheral where
  "sample_peripheral =
     \<lparr> address = 1,
       advertisement =
         Some \<lparr> manufacturerData = Some [0x34, 0x03, 0xB9, 0x60, 0xA4, 0xAE, 0x09, 0x00] \<rparr>,
       rssi = - 60 \<rparr>"

definition short_peripheral :: noblePeripheral where
  "short_peripheral =
     \<lparr> address = 2,
       advertisement = Some \<lparr> manufacturerData = Some [0x34, 0x03, 0xB9, 0x60, 0xA4, 0xAE] \<rparr>,
       rssi = - 70 \<rparr>"

definition long_peripheral :: noblePeripheral where
  "long_peripheral =
     \<lparr> address = 3,
       advertisement =
         Some \<lparr> manufacturerData =
                  Some [0x34, 0x03, 0xB9, 0x60, 0xA4, 0xAE, 0x09, 0x00, 0x01, 0x02] \<rparr>,
       rssi = - 65 \<rparr>"

definition sample_payload :: buffer where
  "sample_payload =
     [1, 140, 0, 0, 0x10, 0, 0x11, 0, 0xC4, 0x09, 0x50, 0xC3, 0x20, 0x03, 0x64, 0, 0, 0, 0, 0]"

definition sample_reading :: reading where
  "sample_reading =
     \<lparr> rHumidity = 70, rRadonStAvg = 16, rRadonLtAvg = 17, rTemp = 25, rPressure = 1000,
       rCo2 = 800, rVoc = 100 \<rparr>"

definition sentinel_payload :: buffer where
  "sentinel_payload =
     [1, 140, 0, 0, 0x10, 0, 0x11, 0, 0xC4, 0x09, 0x50, 0xC3, 0xFF, 0xFF, 0x64, 0, 0, 0, 0, 0]"

definition sentinel_reading :: reading where
  "sentinel_reading =
     \<lparr> rHumidity = 70, rRadonStAvg = 16, rRadonLtAvg = 17, rTemp = 25, rPressure = 1000,
       rCo2 = 65535, rVoc = 100 \<rparr>"

definition sample_env :: env where
  "sample_env =
     \<lparr> poweredOn = True, periState = Disconnected, staleDisconnectOK = True,
       connectOutcome = ConnectOK, readOutcome = ReadOK sample_payload,
       disconnectOK = True, flushOK = True \<rparr>"

definition connected_state :: state where
  "connected_state = initial\<lparr>peripheral := Some sample_peripheral\<rparr>"

text \<open>Three cycles in a row that read the sample payload from the cached device.\<close>

definition first_cycle :: state where
  "first_cycle = snd (main sample_config sample_env connected_state)"

definition second_cycle :: state where
  "second_cycle = snd (main sample_config sample_env first_cycle)"

definition third_cycle :: state where
  "third_cycle = snd (main sample_config sample_env second_cycle)"

section \<open>Properties of the payload codec\<close>

lemma upt20: "[0..<20] = [0, 1, 2, 3, 4, 5, 6, 7, 8, 9, 10, 11, 12, 13, 14, 15, 16, 17, 18, 19 :: nat]"
  by (simp add: upt_rec)

lemma upt8: "[0..<8] = [0, 1, 2, 3, 4, 5, 6, 7 :: nat]"
  by (simp add: upt_rec)

lemma buf20:
  assumes "length (buf :: 'a list) = 20"
  shows "buf = [buf ! 0, buf ! 1, buf ! 2, buf ! 3, buf ! 4, buf ! 5, buf ! 6, buf ! 7,
    buf ! 8, buf ! 9, buf ! 10, buf ! 11, buf ! 12, buf ! 13, buf ! 14, buf ! 15,
    buf ! 16, buf ! 17, buf ! 18, buf ! 19]"
proof -
  have "buf = map ((!) buf) [0..<20]"
    using map_nth [of buf] assms by simp
  then show ?thesis
    unfolding upt20 by simp
qed

lemma buf8:
  assumes "length (buf :: 'a list) = 8"
  shows "buf = [buf ! 0, buf ! 1, buf ! 2, buf ! 3, buf ! 4, buf ! 5, buf ! 6, buf ! 7]"
proof -
  have "buf = map ((!) buf) [0..<8]"
    using map_nth [of buf] assms by simp
  then show ?thesis
    unfolding upt8 by simp
qed

lemma sizeOf_payload: "sizeOf ''BBBBHHHHHHHH'' = Some 20"
  by (simp add: field_size_def)

lemma sizeOf_identity: "sizeOf ''HLH'' = Some 8"
  by (simp add: field_size_def)

lemma format_body_payload: "format_body ''BBBBHHHHHHHH'' = ''BBBBHHHHHHHH''"
  by (simp add: format_body_def)

lemma format_body_identity: "format_body ''<HLH'' = ''HLH''"
  by (simp add: format_body_def)

lemma read_fields_payload_bytes:
  "read_fields ''BBBBHHHHHHHH''
     (b0 # b1 # b2 # b3 # b4 # b5 # b6 # b7 # b8 # b9 # b10 # b11 # b12 # b13 # b14 # b15
        # b16 # b17 # b18 # b19 # rest)
   = [unat b0, unat b1, unat b2, unat b3, unat b4 + 256 * unat b5, unat b6 + 256 * unat b7,
      unat b8 + 256 * unat b9, unat b10 + 256 * unat b11, unat b12 + 256 * unat b13,
      unat b14 + 256 * unat b15, unat b16 + 256 * unat b17, unat b18 + 256 * unat b19]"
  by (simp add: field_size_def)

lemma read_fields_identity_bytes:
  "read_fields ''HLH'' (b0 # b1 # b2 # b3 # b4 # b5 # b6 # b7 # rest)
   = [unat b0 + 256 * unat b1,
      unat b2 + 256 * (unat b3 + 256 * (unat b4 + 256 * unat b5)),
      unat b6 + 256 * unat b7]"
  by (simp add: field_size_def)

lemma read_fields_payload:
  assumes "20 \<le> length buf"
  shows "read_fields ''BBBBHHHHHHHH'' buf = payload_fields buf"
proof -
  define rest where "rest = drop 20 buf"
  have "length (take 20 buf) = 20"
    using assms by simp
  then obtain b0 b1 b2 b3 b4 b5 b6 b7 b8 b9 b10 b11 b12 b13 b14 b15 b16 b17 b18 b19 where
    t: "take 20 buf = [b0, b1, b2, b3, b4, b5, b6, b7, b8, b9, b10, b11, b12, b13, b14, b15,
               b16, b17, b18, b19]"
    using buf20 [of "take 20 buf"] by blast
  have "take 20 buf @ rest = buf"
    unfolding rest_def by (rule append_take_drop_id)
  then have b: "buf = b0 # b1 # b2 # b3 # b4 # b5 # b6 # b7 # b8 # b9 # b10 # b11 # b12 # b13
      # b14 # b15 # b16 # b17 # b18 # b19 # rest"
    unfolding t by simp
  show ?thesis
    unfolding b read_fields_payload_bytes
    by (simp add: payload_fields_def u8_at_def u16le_at_def)
qed

lemma read_fields_identity:
  assumes "8 \<le> length buf"
  shows "read_fields ''HLH'' buf = [u16le_at buf 0, u32le_at buf 2, u16le_at buf 6]"
proof -
  define rest where "rest = drop 8 buf"
  have "length (take 8 buf) = 8"
    using assms by simp
  then obtain b0 b1 b2 b3 b4 b5 b6 b7 where
    t: "take 8 buf = [b0, b1, b2, b3, b4, b5, b6, b7]"
    using buf8 [of "take 8 buf"] by blast
  have "take 8 buf @ rest = buf"
    unfolding rest_def by (rule append_take_drop_id)
  then have b: "buf = b0 # b1 # b2 # b3 # b4 # b5 # b6 # b7 # rest"
    unfolding t by simp
  show ?thesis
    unfolding b read_fields_identity_bytes by (simp add: u16le_at_def u32le_at_def)
qed

lemma unpack_payload:
  "unpack ''BBBBHHHHHHHH'' buf =
     (if length buf < 20 then Inl StructError else Inr (payload_fields buf))"
  unfolding unpack_def format_body_payload sizeOf_payload
  by (simp add: read_fields_payload del: read_fields.simps)

lemma unpack_identity:
  "unpack ''<HLH'' buf =
     (if length buf < 8 then Inl StructError
      else Inr [u16le_at buf 0, u32le_at buf 2, u16le_at buf 6])"
  unfolding unpack_def format_body_identity sizeOf_identity
  by (simp add: read_fields_identity del: read_fields.simps)

lemma decodePayload_fields:
  "decodePayload buf =
     (if length buf < 20 then Inl StructError else Inr (derive (payload_fields buf)))"
  unfolding decodePayload_def unpack_payload by simp

lemma derive_payload_fields:
  "derive (payload_fields buf) =
     \<lparr> rHumidity = of_nat (u8_at buf 1) / 2,
       rRadonStAvg = of_nat (u16le_at buf 4),
       rRadonLtAvg = of_nat (u16le_at buf 6),
       rTemp = of_nat (u16le_at buf 8) / 100,
       rPressure = of_nat (u16le_at buf 10) / 50,
       rCo2 = of_nat (u16le_at buf 12),
       rVoc = of_nat (u16le_at buf 14) \<rparr>"
  by (simp add: derive_def payload_fields_def)

lemma decode_sample: "decodePayload sample_payload = Inr sample_reading"
  by (simp add: decodePayload_fields derive_payload_fields sample_payload_def
      sample_reading_def u8_at_def u16le_at_def)

lemma decode_sentinel: "decodePayload sentinel_payload = Inr sentinel_reading"
  by (simp add: decodePayload_fields derive_payload_fields sentinel_payload_def
      sentinel_reading_def u8_at_def u16le_at_def)

text \<open>
  Claim C2, as the code has it. The format \<open>BBBBHHHHHHHH\<close> describes 4 unsigned 8-bit
  fields followed by 8 little-endian unsigned 16-bit fields, which are 20 bytes, not 24,
  and they are read from the start of the buffer: payload decoding accepts every buffer
  of at least 20 bytes, one of 24 bytes among them, and signals a decode failure for
  every buffer of fewer than 20 bytes. For every accepted buffer the derived values are
  humidity = field[1]/2, radonShortTermAvg = field[4], radonLongTermAvg = field[5],
  temperatureC = field[6]/100, pressureHPa = field[7]/50, co2Ppm = field[8] and
  vocPpb = field[9], where field[0] to field[3] are the bytes 0 to 3 and field[4] to
  field[11] are the little-endian byte pairs at the offsets 4, 6, ..., 18.
\<close>

theorem decodePayload_layout:
  "decodePayload buf =
     (if length buf < 20 then Inl StructError
      else
        Inr \<lparr> rHumidity = of_nat (payload_fields buf ! 1) / 2,
              rRadonStAvg = of_nat (payload_fields buf ! 4),
              rRadonLtAvg = of_nat (payload_fields buf ! 5),
              rTemp = of_nat (payload_fields buf ! 6) / 100,
              rPressure = of_nat (payload_fields buf ! 7) / 50,
              rCo2 = of_nat (payload_fields buf ! 8),
              rVoc = of_nat (payload_fields buf ! 9) \<rparr>)
   \<and> payload_fields buf ! 1 = unat (buf ! 1)
   \<and> payload_fields buf ! 4 = unat (buf ! 4) + 256 * unat (buf ! 5)
   \<and> payload_fields buf ! 5 = unat (buf ! 6) + 256 * unat (buf ! 7)
   \<and> payload_fields buf ! 6 = unat (buf ! 8) + 256 * unat (buf ! 9)
   \<and> payload_fields buf ! 7 = unat (buf ! 10) + 256 * unat (buf ! 11)
   \<and> payload_fields buf ! 8 = unat (buf ! 12) + 256 * unat (buf ! 13)
   \<and> payload_fields buf ! 9 = unat (buf ! 14) + 256 * unat (buf ! 15)"
proof -
  have "decodePayload buf =
     (if length buf < 20 then Inl StructError else Inr (derive (payload_fields buf)))"
    by (rule decodePayload_fields)
  moreover have "derive (payload_fields buf) =
      \<lparr> rHumidity = of_nat (payload_fields buf ! 1) / 2,
        rRadonStAvg = of_nat (payload_fields buf ! 4),
        rRadonLtAvg = of_nat (payload_fields buf ! 5),
        rTemp = of_nat (payload_fields buf ! 6) / 100,
        rPressure = of_nat (payload_fields buf ! 7) / 50,
        rCo2 = of_nat (payload_fields buf ! 8),
        rVoc = of_nat (payload_fields buf ! 9) \<rparr>"
    by (simp add: derive_def)
  moreover have "payload_fields buf ! 1 = unat (buf ! 1)"
    by (simp add: payload_fields_def u8_at_def)
  moreover have "payload_fields buf ! 4 = unat (buf ! 4) + 256 * unat (buf ! 5)"
    by (simp add: payload_fields_def u16le_at_def)
  moreover have "payload_fields buf ! 5 = unat (buf ! 6) + 256 * unat (buf ! 7)"
    by (simp add: payload_fields_def u16le_at_def)
  moreover have "payload_fields buf ! 6 = unat (buf ! 8) + 256 * unat (buf ! 9)"
    by (simp add: payload_fields_def u16le_at_def)
  moreover have "payload_fields buf ! 7 = unat (buf ! 10) + 256 * unat (buf ! 11)"
    by (simp add: payload_fields_def u16le_at_def)
  moreover have "payload_fields buf ! 8 = unat (buf ! 12) + 256 * unat (buf ! 13)"
    by (simp add: payload_fields_def u16le_at_def)
  moreover have "payload_fields buf ! 9 = unat (buf ! 14) + 256 * unat (buf ! 15)"
    by (simp add: payload_fields_def u16le_at_def)
  ultimately show ?thesis
    by simp
qed

text \<open>
  The sample payload decodes to humidity 70 (raw byte 140) and 25 degrees (raw word 2500);
  followed by four more bytes, 24 in all, it decodes to the same reading; without its
  last byte it is refused.
\<close>

theorem decodePayload_layout_witness:
  "decodePayload sample_payload =
     Inr \<lparr> rHumidity = 70, rRadonStAvg = 16, rRadonLtAvg = 17, rTemp = 25,
           rPressure = 1000, rCo2 = 800, rVoc = 100 \<rparr>
   \<and> length (sample_payload @ [1, 2, 3, 4]) = 24
   \<and> decodePayload (sample_payload @ [1, 2, 3, 4]) =
     Inr \<lparr> rHumidity = 70, rRadonStAvg = 16, rRadonLtAvg = 17, rTemp = 25,
           rPressure = 1000, rCo2 = 800, rVoc = 100 \<rparr>
   \<and> decodePayload (butlast sample_payload) = Inl StructError"
  using decodePayload_layout [of sample_payload]
    decodePayload_layout [of "sample_payload @ [1, 2, 3, 4]"]
    decodePayload_layout [of "butlast sample_payload"]
  by (simp add: sample_payload_def)

text \<open>
  Claim C2 as stated fails: the sample payload is 20 bytes long, not 24, and it is
  accepted; so is the buffer of 21 bytes that starts with it.
\<close>

theorem decodePayload_24_counterexample:
  "length sample_payload \<noteq> 24
   \<and> decodePayload sample_payload =
       Inr \<lparr> rHumidity = 70, rRadonStAvg = 16, rRadonLtAvg = 17, rTemp = 25,
             rPressure = 1000, rCo2 = 800, rVoc = 100 \<rparr>
   \<and> length (sample_payload @ [7]) \<noteq> 24
   \<and> decodePayload (sample_payload @ [7]) =
       Inr \<lparr> rHumidity = 70, rRadonStAvg = 16, rRadonLtAvg = 17, rTemp = 25,
             rPressure = 1000, rCo2 = 800, rVoc = 100 \<rparr>"
proof -
  have "decodePayload (sample_payload @ [7]) =
       Inr \<lparr> rHumidity = 70, rRadonStAvg = 16, rRadonLtAvg = 17, rTemp = 25,
             rPressure = 1000, rCo2 = 800, rVoc = 100 \<rparr>"
    by (simp add: decodePayload_fields derive_payload_fields sample_payload_def
        u8_at_def u16le_at_def)
  then show ?thesis
    using decode_sample by (simp add: sample_payload_def sample_reading_def)
qed

subsection \<open>Identity decoding\<close>

lemma onDiscover_cases:
  "onDiscover cfg p s =
     (case manufacturerDataOf p of
        None \<Rightarrow> Inr s
      | Some md \<Rightarrow>
          if length md < 7 then Inr s
          else if length md < 8 then Inl StructError
          else if u16le_at md 0 = 0x0334
                  \<and> parseInt (serialNumber cfg) = Some (int (u32le_at md 2))
          then Inr (fin (emit [LogInfo ''found''] (s\<lparr>peripheral := Some p\<rparr>)))
          else Inr s)"
  unfolding onDiscover_def unpack_identity
  by (simp split: option.splits)

lemma fin_effects: "effects (fin s) = effects s @ [ClearScanTimeout, StopScanning, RemoveDiscover, ResolveAfter 3000]"
  by (simp add: fin_def emit_def)

lemma fin_emit_neq: "fin (emit es s) \<noteq> s"
proof
  assume "fin (emit es s) = s"
  then have "length (effects (fin (emit es s))) = length (effects s)"
    by simp
  then show False
    by (simp add: fin_effects emit_def)
qed

lemma fin_peripheral: "peripheral (fin s) = peripheral s"
  by (simp add: fin_def emit_def)

lemma parseInt_sample: "parseInt (Some (ascii ''2930008249'')) = Some 2930008249"
  by (simp add: parseInt_def ascii_def isStrWhiteSpaceChar_def isDigit_def)

text \<open>
  Claim C5. The advertisement listener leaves the session untouched (no match) whenever
  the advertisement carries no manufacturer data or fewer than 7 bytes of it. It changes
  the session (a match: the peripheral is cached and the scan is finished) only when the
  first 2 bytes, read little-endian, are the tag 0x0334 and the next 4 bytes, read
  little-endian, are the configured serial number \<open>parseInt(serialNumber, 10)\<close>. Every
  block of 8 or more bytes with that tag and that serial number is a match, whatever
  follows the first 6 bytes.
\<close>

theorem onDiscover_identity:
  "(manufacturerDataOf p = None \<longrightarrow> onDiscover cfg p s = Inr s)
   \<and> (manufacturerDataOf p = Some md \<and> length md < 7 \<longrightarrow> onDiscover cfg p s = Inr s)
   \<and> (onDiscover cfg p s = Inr s' \<and> s' \<noteq> s \<longrightarrow>
        (\<exists>md. manufacturerDataOf p = Some md \<and> 7 \<le> length md
           \<and> u16le_at md 0 = 0x0334
           \<and> parseInt (serialNumber cfg) = Some (int (u32le_at md 2))
           \<and> peripheral s' = Some p \<and> scanning s' = False))
   \<and> (manufacturerDataOf p = Some md \<and> 8 \<le> length md \<and> u16le_at md 0 = 0x0334
        \<and> parseInt (serialNumber cfg) = Some (int (u32le_at md 2)) \<longrightarrow>
        onDiscover cfg p s = Inr (fin (emit [LogInfo ''found''] (s\<lparr>peripheral := Some p\<rparr>))))"
proof (intro conjI impI)
  assume "manufacturerDataOf p = None"
  then show "onDiscover cfg p s = Inr s"
    by (simp add: onDiscover_cases)
next
  assume "manufacturerDataOf p = Some md \<and> length md < 7"
  then show "onDiscover cfg p s = Inr s"
    by (simp add: onDiscover_cases)
next
  assume a: "onDiscover cfg p s = Inr s' \<and> s' \<noteq> s"
  show "\<exists>md. manufacturerDataOf p = Some md \<and> 7 \<le> length md
           \<and> u16le_at md 0 = 0x0334
           \<and> parseInt (serialNumber cfg) = Some (int (u32le_at md 2))
           \<and> peripheral s' = Some p \<and> scanning s' = False"
  proof (cases "manufacturerDataOf p")
    case None
    with a have "s' = s \<and> s' \<noteq> s"
      by (auto simp: onDiscover_cases)
    then show ?thesis
      by simp
  next
    case (Some md)
    with a have "7 \<le> length md \<and> u16le_at md 0 = 0x0334
        \<and> parseInt (serialNumber cfg) = Some (int (u32le_at md 2))
        \<and> s' = fin (emit [LogInfo ''found''] (s\<lparr>peripheral := Some p\<rparr>))"
      by (auto simp: onDiscover_cases split: if_splits)
    then show ?thesis
      using Some by (simp add: fin_def emit_def)
  qed
next
  assume "manufacturerDataOf p = Some md \<and> 8 \<le> length md \<and> u16le_at md 0 = 0x0334
        \<and> parseInt (serialNumber cfg) = Some (int (u32le_at md 2))"
  then show "onDiscover cfg p s
      = Inr (fin (emit [LogInfo ''found''] (s\<lparr>peripheral := Some p\<rparr>)))"
    by (simp add: onDiscover_cases)
qed

text \<open>
  The advertisement of the configured device is matched, with 8 bytes of manufacturer
  data and with 10; the same data cut to 6 bytes is ignored.
\<close>

theorem onDiscover_identity_witness:
  "manufacturerDataOf short_peripheral = Some [0x34, 0x03, 0xB9, 0x60, 0xA4, 0xAE]
   \<and> onDiscover sample_config short_peripheral initial = Inr initial
   \<and> onDiscover sample_config sample_peripheral initial
       = Inr (fin (emit [LogInfo ''found''] (initial\<lparr>peripheral := Some sample_peripheral\<rparr>)))
   \<and> onDiscover sample_config long_peripheral initial
       = Inr (fin (emit [LogInfo ''found''] (initial\<lparr>peripheral := Some long_peripheral\<rparr>)))
   \<and> (\<exists>md. manufacturerDataOf long_peripheral = Some md \<and> 7 \<le> length md
         \<and> u16le_at md 0 = 0x0334
         \<and> parseInt (serialNumber sample_config) = Some (int (u32le_at md 2)))"
proof -
  let ?s' = "fin (emit [LogInfo ''found''] (initial\<lparr>peripheral := Some long_peripheral\<rparr>))"
  have c: "parseInt (serialNumber sample_config) = Some 2930008249"
    using parseInt_sample by (simp add: sample_config_def)
  have m: "manufacturerDataOf sample_peripheral
      = Some [0x34, 0x03, 0xB9, 0x60, 0xA4, 0xAE, 0x09, 0x00]"
    by (simp add: manufacturerDataOf_def sample_peripheral_def)
  have t: "u16le_at [0x34, 0x03, 0xB9, 0x60, 0xA4, 0xAE, 0x09, 0x00] 0 = 0x0334"
    by (simp add: u16le_at_def)
  have n: "int (u32le_at [0x34, 0x03, 0xB9, 0x60, 0xA4, 0xAE, 0x09, 0x00] 2) = 2930008249"
    by (simp add: u32le_at_def)
  have ml: "manufacturerDataOf long_peripheral
      = Some [0x34, 0x03, 0xB9, 0x60, 0xA4, 0xAE, 0x09, 0x00, 0x01, 0x02]"
    by (simp add: manufacturerDataOf_def long_peripheral_def)
  have tl: "u16le_at [0x34, 0x03, 0xB9, 0x60, 0xA4, 0xAE, 0x09, 0x00, 0x01, 0x02] 0 = 0x0334"
    by (simp add: u16le_at_def)
  have nl: "int (u32le_at [0x34, 0x03, 0xB9, 0x60, 0xA4, 0xAE, 0x09, 0x00, 0x01, 0x02] 2)
      = 2930008249"
    by (simp add: u32le_at_def)
  have found: "onDiscover sample_config sample_peripheral initial
      = Inr (fin (emit [LogInfo ''found''] (initial\<lparr>peripheral := Some sample_peripheral\<rparr>)))"
    using onDiscover_identity [where p = sample_peripheral and cfg = sample_config
        and s = initial and md = "[0x34, 0x03, 0xB9, 0x60, 0xA4, 0xAE, 0x09, 0x00]"]
      m t n c
    by simp
  have found_long: "onDiscover sample_config long_peripheral initial = Inr ?s'"
    using onDiscover_identity [where p = long_peripheral and cfg = sample_config
        and s = initial
        and md = "[0x34, 0x03, 0xB9, 0x60, 0xA4, 0xAE, 0x09, 0x00, 0x01, 0x02]"]
      ml tl nl c
    by simp
  have "effects ?s' \<noteq> effects initial"
    by (simp add: fin_effects emit_def initial_def)
  then have neq: "?s' \<noteq> initial"
    by auto
  have short: "manufacturerDataOf short_peripheral = Some [0x34, 0x03, 0xB9, 0x60, 0xA4, 0xAE]"
    by (simp add: manufacturerDataOf_def short_peripheral_def)
  have ignored: "onDiscover sample_config short_peripheral initial = Inr initial"
    using onDiscover_identity [where p = short_peripheral and cfg = sample_config
        and s = initial and md = "[0x34, 0x03, 0xB9, 0x60, 0xA4, 0xAE]"] short
    by simp
  have matched: "\<exists>md. manufacturerDataOf long_peripheral = Some md \<and> 7 \<le> length md
      \<and> u16le_at md 0 = 0x0334
      \<and> parseInt (serialNumber sample_config) = Some (int (u32le_at md 2))"
    using onDiscover_identity [where p = long_peripheral and cfg = sample_config
        and s = initial and s' = ?s'] found_long neq
    by blast
  from short ignored found found_long matched show ?thesis
    by blast
qed

section \<open>Properties of the air-quality classifier\<close>

lemma humidity_step_score: "humidity_step h a = humidity_score h"
  by (simp add: humidity_score_def humidity_step_def)

lemma radon_step_max: "radon_step r a = max a (radon_score r)"
  by (simp add: radon_score_def radon_step_def)

lemma co2_step_max: "co2_step c a = max a (co2_score c)"
  by (simp add: co2_score_def co2_step_def)

lemma co2_step_old_max: "co2_step_old c a = max a (co2_score_old c)"
  by (simp add: co2_score_old_def co2_step_old_def)

lemma voc_step_max: "voc_step v a = max a (voc_score v)"
  by (simp add: voc_score_def voc_step_def)

lemma humidity_score_range: "2 \<le> humidity_score h \<and> humidity_score h \<le> 5"
  by (simp add: humidity_score_def humidity_step_def)

lemma radon_score_range: "2 \<le> radon_score r \<and> radon_score r \<le> 5"
  by (simp add: radon_score_def radon_step_def)

lemma co2_score_range: "2 \<le> co2_score c \<and> co2_score c \<le> 5"
  by (simp add: co2_score_def co2_step_def)

lemma co2_score_old_range: "2 \<le> co2_score_old c \<and> co2_score_old c \<le> 5"
  by (simp add: co2_score_old_def co2_step_old_def)

lemma voc_score_range: "2 \<le> voc_score v \<and> voc_score v \<le> 5"
  by (simp add: voc_score_def voc_step_def)

lemma airQuality_max:
  "airQuality h r c v =
     max (max (humidity_score h) (radon_score r)) (max (co2_score c) (voc_score v))"
  by (simp add: airQuality_def humidity_step_score radon_step_max co2_step_max voc_step_max
      max.assoc)

lemma airQuality_old_max:
  "airQuality_old h r c v =
     max (max (humidity_score h) (radon_score r)) (max (co2_score_old c) (voc_score v))"
  by (simp add: airQuality_old_def humidity_step_score radon_step_max co2_step_old_max
      voc_step_max max.assoc)

text \<open>
  Claim C1, as the code has it. In \<open>index.ts\<close> the CO2 sub-score has four bands: it is 5
  whenever co2 >= 1500, else 4 whenever co2 >= 1200, else 3 whenever co2 >= 800, else 2;
  in particular co2=799 gives at most 3 (it gives 2), co2=800 gives exactly 3, co2=1000
  gives 3 and co2=1500 gives exactly 5. The three bands of the claim, with 5 from
  co2 >= 1000 on, are those of the older variant of the file.
\<close>

theorem co2_score_bands:
  "co2_score c = (if c \<ge> 1500 then 5 else if c \<ge> 1200 then 4 else if c \<ge> 800 then 3 else 2)
   \<and> co2_score 799 \<le> 3 \<and> co2_score 800 = 3 \<and> co2_score 1000 = 3 \<and> co2_score 1500 = 5
   \<and> co2_step c a = max a (co2_score c)
   \<and> co2_score_old c = (if c \<ge> 1000 then 5 else if c \<ge> 800 then 3 else 2)
   \<and> co2_score_old 799 \<le> 3 \<and> co2_score_old 800 = 3 \<and> co2_score_old 1000 = 5
   \<and> co2_step_old c a = max a (co2_score_old c)"
proof -
  have "co2_score c = (if c \<ge> 1500 then 5 else if c \<ge> 1200 then 4 else if c \<ge> 800 then 3 else 2)"
    by (simp add: co2_score_def co2_step_def)
  moreover have "co2_score 799 \<le> 3 \<and> co2_score 800 = 3 \<and> co2_score 1000 = 3 \<and> co2_score 1500 = 5"
    by (simp add: co2_score_def co2_step_def)
  moreover have "co2_score_old c = (if c \<ge> 1000 then 5 else if c \<ge> 800 then 3 else 2)"
    by (simp add: co2_score_old_def co2_step_old_def)
  moreover have "co2_score_old 799 \<le> 3 \<and> co2_score_old 800 = 3 \<and> co2_score_old 1000 = 5"
    by (simp add: co2_score_old_def co2_step_old_def)
  ultimately show ?thesis
    using co2_step_max [of c a] co2_step_old_max [of c a] by simp
qed

text \<open>The band from 1200 to 1500, which the claim does not have, gives 4.\<close>

theorem co2_score_bands_witness:
  "co2_score 1200 = 4 \<and> co2_score 1499 = 4 \<and> co2_score_old 1200 = 5"
  using co2_score_bands [of 1200 0] co2_score_bands [of 1499 0]
  by simp

text \<open>
  Claim C1 as stated fails in \<open>index.ts\<close>: at co2=1000 the CO2 sub-score is 3, not 5, and
  so is the index of a reading whose other quantities are in their best band.
\<close>

theorem co2_score_1000_counterexample:
  "co2_score 1000 = 3 \<and> co2_score 1000 \<noteq> 5 \<and> airQuality 40 0 1000 0 = 3"
  by (simp add: co2_score_def airQuality_def humidity_step_def radon_step_def co2_step_def
      voc_step_def)

lemma humidity_score_bands:
  "humidity_score h =
     (if h \<ge> 70 \<or> h < 25 then 5 else if h \<ge> 60 \<or> h < 30 then 3 else 2)"
  by (simp add: humidity_score_def humidity_step_def)

lemma radon_score_bands:
  "radon_score r = (if r \<ge> 150 then 5 else if r \<ge> 100 then 3 else 2)"
  by (simp add: radon_score_def radon_step_def)

lemma co2_score_four_bands:
  "co2_score c = (if c \<ge> 1500 then 5 else if c \<ge> 1200 then 4 else if c \<ge> 800 then 3 else 2)"
  by (simp add: co2_score_def co2_step_def)

lemma co2_score_old_bands:
  "co2_score_old c = (if c \<ge> 1000 then 5 else if c \<ge> 800 then 3 else 2)"
  by (simp add: co2_score_old_def co2_step_old_def)

lemma voc_score_bands:
  "voc_score v = (if v \<ge> 2000 then 5 else if v \<ge> 250 then 3 else 2)"
  by (simp add: voc_score_def voc_step_def)

text \<open>
  Claim C4. The air-quality index is the maximum of four sub-scores, each a function of
  one quantity alone: the humidity sub-score (5 if humidity >= 70 or < 25, else 3 if
  >= 60 or < 30, else 2), the radon sub-score (5 if >= 150, else 3 if >= 100, else 2),
  the CO2 sub-score (in \<open>index.ts\<close> 5 if >= 1500, else 4 if >= 1200, else 3 if >= 800,
  else 2) and the VOC sub-score (5 if >= 2000, else 3 if >= 250, else 2). It is an
  integer between 0 and 5. It is not the sum of the sub-scores, which is always larger,
  and it is not their average, which it bounds from above (four times the index is at
  least the sum). The older variant has the same maximum with its own CO2 sub-score (5 if
  >= 1000, else 3 if >= 800, else 2).
\<close>

theorem airQuality_maximum:
  "airQuality h r c v =
     Max {(if h \<ge> 70 \<or> h < 25 then 5 else if h \<ge> 60 \<or> h < 30 then 3 else 2),
          (if r \<ge> 150 then 5 else if r \<ge> 100 then 3 else 2),
          (if c \<ge> 1500 then 5 else if c \<ge> 1200 then 4 else if c \<ge> 800 then 3 else 2),
          (if v \<ge> 2000 then 5 else if v \<ge> 250 then 3 else 2)}
   \<and> humidity_score h =
       (if h \<ge> 70 \<or> h < 25 then 5 else if h \<ge> 60 \<or> h < 30 then 3 else 2)
   \<and> radon_score r = (if r \<ge> 150 then 5 else if r \<ge> 100 then 3 else 2)
   \<and> co2_score c =
       (if c \<ge> 1500 then 5 else if c \<ge> 1200 then 4 else if c \<ge> 800 then 3 else 2)
   \<and> voc_score v = (if v \<ge> 2000 then 5 else if v \<ge> 250 then 3 else 2)
   \<and> airQuality h r c v = Max {humidity_score h, radon_score r, co2_score c, voc_score v}
   \<and> 0 \<le> airQuality h r c v \<and> airQuality h r c v \<le> 5
   \<and> airQuality h r c v < humidity_score h + radon_score r + co2_score c + voc_score v
   \<and> humidity_score h + radon_score r + co2_score c + voc_score v
       \<le> 4 * airQuality h r c v
   \<and> airQuality_old h r c v =
     Max {(if h \<ge> 70 \<or> h < 25 then 5 else if h \<ge> 60 \<or> h < 30 then 3 else 2),
          (if r \<ge> 150 then 5 else if r \<ge> 100 then 3 else 2),
          (if c \<ge> 1000 then 5 else if c \<ge> 800 then 3 else 2),
          (if v \<ge> 2000 then 5 else if v \<ge> 250 then 3 else 2)}
   \<and> airQuality_old h r c v
       = Max {humidity_score h, radon_score r, co2_score_old c, voc_score v}
   \<and> 0 \<le> airQuality_old h r c v \<and> airQuality_old h r c v \<le> 5"
proof -
  note rg = humidity_score_range [of h] radon_score_range [of r] co2_score_range [of c]
    co2_score_old_range [of c] voc_score_range [of v]
  have eq: "airQuality h r c v
      = Max {humidity_score h, radon_score r, co2_score c, voc_score v}"
    by (simp add: airQuality_max max.assoc)
  have banded: "airQuality h r c v =
     Max {(if h \<ge> 70 \<or> h < 25 then 5 else if h \<ge> 60 \<or> h < 30 then 3 else 2),
          (if r \<ge> 150 then 5 else if r \<ge> 100 then 3 else 2),
          (if c \<ge> 1500 then 5 else if c \<ge> 1200 then 4 else if c \<ge> 800 then 3 else 2),
          (if v \<ge> 2000 then 5 else if v \<ge> 250 then 3 else 2)}"
    using eq
    unfolding humidity_score_bands radon_score_bands co2_score_four_bands voc_score_bands .
  have le: "humidity_score h \<le> airQuality h r c v" "radon_score r \<le> airQuality h r c v"
    "co2_score c \<le> airQuality h r c v" "voc_score v \<le> airQuality h r c v"
    by (simp_all add: airQuality_max le_max_iff_disj)
  have ub: "airQuality h r c v \<le> 5"
    using rg by (simp add: airQuality_max)
  have eq_old: "airQuality_old h r c v
      = Max {humidity_score h, radon_score r, co2_score_old c, voc_score v}"
    by (simp add: airQuality_old_max max.assoc)
  have banded_old: "airQuality_old h r c v =
     Max {(if h \<ge> 70 \<or> h < 25 then 5 else if h \<ge> 60 \<or> h < 30 then 3 else 2),
          (if r \<ge> 150 then 5 else if r \<ge> 100 then 3 else 2),
          (if c \<ge> 1000 then 5 else if c \<ge> 800 then 3 else 2),
          (if v \<ge> 2000 then 5 else if v \<ge> 250 then 3 else 2)}"
    using eq_old
    unfolding humidity_score_bands radon_score_bands co2_score_old_bands voc_score_bands .
  have le_old: "humidity_score h \<le> airQuality_old h r c v"
    by (simp add: airQuality_old_max le_max_iff_disj)
  have ub_old: "airQuality_old h r c v \<le> 5"
    using rg by (simp add: airQuality_old_max)
  have lb: "0 \<le> airQuality h r c v"
    using le(1) rg(1) by linarith
  have below_sum: "airQuality h r c v
      < humidity_score h + radon_score r + co2_score c + voc_score v"
    using ub rg by linarith
  have above_avg: "humidity_score h + radon_score r + co2_score c + voc_score v
      \<le> 4 * airQuality h r c v"
    using le by linarith
  have lb_old: "0 \<le> airQuality_old h r c v"
    using le_old rg(1) by linarith
  show ?thesis
    by (intro conjI)
      (rule banded humidity_score_bands radon_score_bands co2_score_four_bands
        voc_score_bands eq lb ub below_sum above_avg banded_old eq_old lb_old ub_old)+
qed

text \<open>
  A reading with sub-scores 2, 3, 5 and 2 has the index 5; their sum is 12 and their
  average is 3. With the VOC value raised to 300 and the others in their best band the
  index is the VOC sub-score 3.
\<close>

theorem airQuality_maximum_witness:
  "humidity_score 40 = 2 \<and> radon_score 120 = 3 \<and> co2_score 1600 = 5 \<and> voc_score 100 = 2
   \<and> airQuality 40 120 1600 100 = 5
   \<and> airQuality 40 0 400 300 = 3"
proof -
  have s: "humidity_score 40 = 2 \<and> radon_score 120 = 3 \<and> co2_score 1600 = 5
      \<and> voc_score 100 = 2"
    by (simp add: humidity_score_def humidity_step_def radon_score_def radon_step_def
        co2_score_def co2_step_def voc_score_def voc_step_def)
  have "airQuality 40 120 1600 100
      = Max {humidity_score 40, radon_score 120, co2_score 1600, voc_score 100}"
    using airQuality_maximum [of 40 120 1600 100] by blast
  with s have a: "airQuality 40 120 1600 100 = 5"
    by simp
  have "airQuality 40 0 400 300 =
     Max {(if (40 :: rat) \<ge> 70 \<or> (40 :: rat) < 25 then 5
           else if (40 :: rat) \<ge> 60 \<or> (40 :: rat) < 30 then 3 else 2),
          (if (0 :: rat) \<ge> 150 then 5 else if (0 :: rat) \<ge> 100 then 3 else 2),
          (if (400 :: rat) \<ge> 1500 then 5 else if (400 :: rat) \<ge> 1200 then 4
           else if (400 :: rat) \<ge> 800 then 3 else 2),
          (if (300 :: rat) \<ge> 2000 then 5 else if (300 :: rat) \<ge> 250 then 3 else (2 :: int))}"
    using airQuality_maximum [of 40 0 400 300] by blast
  then have b: "airQuality 40 0 400 300 = 3"
    by simp
  from s a b show ?thesis
    by blast
qed

text \<open>
  Claim C10. For every input the classifier returns an index of at least 2, in both
  variants of the file: the values 0 and 1 are never produced.
\<close>

theorem airQuality_at_least_two:
  "2 \<le> airQuality h r c v \<and> airQuality h r c v \<noteq> 0 \<and> airQuality h r c v \<noteq> 1
   \<and> 2 \<le> airQuality_old h r c v"
proof -
  have "voc_score v \<le> airQuality h r c v"
    by (simp add: airQuality_max le_max_iff_disj)
  then have "2 \<le> airQuality h r c v"
    using voc_score_range [of v] by linarith
  moreover have "voc_score v \<le> airQuality_old h r c v"
    by (simp add: airQuality_old_max le_max_iff_disj)
  then have "2 \<le> airQuality_old h r c v"
    using voc_score_range [of v] by linarith
  ultimately show ?thesis
    by simp
qed

text \<open>The best reading has the index 2.\<close>

theorem airQuality_at_least_two_witness:
  "airQuality 40 0 400 0 = 2 \<and> airQuality_old 40 0 400 0 = 2"
proof -
  have "airQuality 40 0 400 0 \<le> 2 \<and> airQuality_old 40 0 400 0 \<le> 2"
    by (simp add: airQuality_def airQuality_old_def humidity_step_def radon_step_def
        co2_step_def co2_step_old_def voc_step_def)
  then show ?thesis
    using airQuality_at_least_two [of 40 0 400 0] by simp
qed

section \<open>Properties of the publish step\<close>

lemma emitted_append: "effects s' = effects s @ es \<Longrightarrow> emitted s s' = es"
  by (simp add: emitted_def)

lemma updates_append: "updates ch (xs @ ys) = updates ch xs @ updates ch ys"
  by (induction ch xs rule: updates.induct) simp_all

lemma publish_aq_effects:
  "effects (publish_aq classify cfg r s) = effects s @
     (if aq_differs classify cfg r s
      then [UpdateValue AirQuality
              (of_int (classify (rHumidity r) (rRadonStAvg r) (rCo2 r) (rVoc r))),
            UpdateValue VOCDensity (rVoc r)]
      else [])"
  by (auto simp: publish_aq_def aq_differs_def emit_def Let_def)

lemma publish_aq_lastState:
  "lastState (publish_aq classify cfg r s) =
     (if aq_differs classify cfg r s
      then (lastState s)\<lparr>aq := classify (rHumidity r) (rRadonStAvg r) (rCo2 r) (rVoc r),
                          voc := rVoc r\<rparr>
      else lastState s)"
  by (auto simp: publish_aq_def aq_differs_def emit_def Let_def)

lemma publish_aq_frame:
  "mainTimer (publish_aq classify cfg r s) = mainTimer s"
  "scanning (publish_aq classify cfg r s) = scanning s"
  "peripheral (publish_aq classify cfg r s) = peripheral s"
  "co2 (lastState (publish_aq classify cfg r s)) = co2 (lastState s)"
  "humidity (lastState (publish_aq classify cfg r s)) = humidity (lastState s)"
  "temp (lastState (publish_aq classify cfg r s)) = temp (lastState s)"
  by (auto simp: publish_aq_def emit_def Let_def)

lemma publish_co2_effects:
  "effects (publish_co2 cfg r s) = effects s @
     (if co2Service cfg \<and> rCo2 r \<noteq> co2 (lastState s)
      then [UpdateValue CarbonDioxideLevel (rCo2 r)] else [])"
  by (auto simp: publish_co2_def emit_def)

lemma publish_co2_lastState:
  "lastState (publish_co2 cfg r s) =
     (if co2Service cfg \<and> rCo2 r \<noteq> co2 (lastState s)
      then (lastState s)\<lparr>co2 := rCo2 r\<rparr> else lastState s)"
  by (auto simp: publish_co2_def emit_def)

lemma publish_co2_frame:
  "mainTimer (publish_co2 cfg r s) = mainTimer s"
  "scanning (publish_co2 cfg r s) = scanning s"
  "peripheral (publish_co2 cfg r s) = peripheral s"
  "aq (lastState (publish_co2 cfg r s)) = aq (lastState s)"
  "voc (lastState (publish_co2 cfg r s)) = voc (lastState s)"
  "humidity (lastState (publish_co2 cfg r s)) = humidity (lastState s)"
  "temp (lastState (publish_co2 cfg r s)) = temp (lastState s)"
  by (auto simp: publish_co2_def emit_def)

lemma publish_humidity_effects:
  "effects (publish_humidity cfg r s) = effects s @
     (if humidityService cfg \<and> rHumidity r \<noteq> humidity (lastState s)
      then [UpdateValue CurrentRelativeHumidity (rHumidity r)] else [])"
  by (auto simp: publish_humidity_def emit_def)

lemma publish_humidity_lastState:
  "lastState (publish_humidity cfg r s) =
     (if humidityService cfg \<and> rHumidity r \<noteq> humidity (lastState s)
      then (lastState s)\<lparr>humidity := rHumidity r\<rparr> else lastState s)"
  by (auto simp: publish_humidity_def emit_def)

lemma publish_humidity_frame:
  "mainTimer (publish_humidity cfg r s) = mainTimer s"
  "scanning (publish_humidity cfg r s) = scanning s"
  "peripheral (publish_humidity cfg r s) = peripheral s"
  "aq (lastState (publish_humidity cfg r s)) = aq (lastState s)"
  "voc (lastState (publish_humidity cfg r s)) = voc (lastState s)"
  "co2 (lastState (publish_humidity cfg r s)) = co2 (lastState s)"
  "temp (lastState (publish_humidity cfg r s)) = temp (lastState s)"
  by (auto simp: publish_humidity_def emit_def)

lemma publish_temp_effects:
  "effects (publish_temp cfg r s) = effects s @
     (if tempService cfg \<and> rTemp r \<noteq> temp (lastState s)
      then [UpdateValue CurrentTemperature (rTemp r)] else [])"
  by (auto simp: publish_temp_def emit_def)

lemma publish_temp_lastState:
  "lastState (publish_temp cfg r s) =
     (if tempService cfg \<and> rTemp r \<noteq> temp (lastState s)
      then (lastState s)\<lparr>temp := rTemp r\<rparr> else lastState s)"
  by (auto simp: publish_temp_def emit_def)

lemma publish_temp_frame:
  "mainTimer (publish_temp cfg r s) = mainTimer s"
  "scanning (publish_temp cfg r s) = scanning s"
  "peripheral (publish_temp cfg r s) = peripheral s"
  "aq (lastState (publish_temp cfg r s)) = aq (lastState s)"
  "voc (lastState (publish_temp cfg r s)) = voc (lastState s)"
  "co2 (lastState (publish_temp cfg r s)) = co2 (lastState s)"
  "humidity (lastState (publish_temp cfg r s)) = humidity (lastState s)"
  by (auto simp: publish_temp_def emit_def)

lemma publish_unfold:
  "publish classify cfg r s =
     publish_temp cfg r
       (publish_humidity cfg r (publish_co2 cfg r (publish_aq classify cfg r s)))"
  by (simp add: publish_def)

lemma publish_effects:
  "effects (publish classify cfg r s) = effects s
     @ (if aq_differs classify cfg r s
        then [UpdateValue AirQuality
                (of_int (classify (rHumidity r) (rRadonStAvg r) (rCo2 r) (rVoc r))),
              UpdateValue VOCDensity (rVoc r)] else [])
     @ (if co2Service cfg \<and> rCo2 r \<noteq> co2 (lastState s)
        then [UpdateValue CarbonDioxideLevel (rCo2 r)] else [])
     @ (if humidityService cfg \<and> rHumidity r \<noteq> humidity (lastState s)
        then [UpdateValue CurrentRelativeHumidity (rHumidity r)] else [])
     @ (if tempService cfg \<and> rTemp r \<noteq> temp (lastState s)
        then [UpdateValue CurrentTemperature (rTemp r)] else [])"
  unfolding publish_unfold publish_temp_effects publish_humidity_effects publish_co2_effects
    publish_aq_effects publish_humidity_frame publish_co2_frame publish_aq_frame
  by simp

lemma publish_frame:
  "mainTimer (publish classify cfg r s) = mainTimer s"
  "scanning (publish classify cfg r s) = scanning s"
  "peripheral (publish classify cfg r s) = peripheral s"
  unfolding publish_unfold publish_temp_frame publish_humidity_frame publish_co2_frame
    publish_aq_frame
  by simp_all

lemma publish_co2_field:
  "co2 (lastState (publish classify cfg r s)) =
     (if co2Service cfg \<and> rCo2 r \<noteq> co2 (lastState s) then rCo2 r else co2 (lastState s))"
  unfolding publish_unfold publish_temp_frame publish_humidity_frame
  by (simp add: publish_co2_lastState publish_aq_frame)

lemma publish_humidity_field:
  "humidity (lastState (publish classify cfg r s)) =
     (if humidityService cfg \<and> rHumidity r \<noteq> humidity (lastState s)
      then rHumidity r else humidity (lastState s))"
  unfolding publish_unfold publish_temp_frame
  by (simp add: publish_humidity_lastState publish_co2_frame publish_aq_frame)

lemma publish_temp_field:
  "temp (lastState (publish classify cfg r s)) =
     (if tempService cfg \<and> rTemp r \<noteq> temp (lastState s) then rTemp r
      else temp (lastState s))"
  unfolding publish_unfold
  by (simp add: publish_temp_lastState publish_humidity_frame publish_co2_frame
      publish_aq_frame)

lemma publish_aq_field:
  "aq (lastState (publish classify cfg r s)) =
     (if aq_differs classify cfg r s
      then classify (rHumidity r) (rRadonStAvg r) (rCo2 r) (rVoc r) else aq (lastState s))"
  unfolding publish_unfold publish_temp_frame publish_humidity_frame publish_co2_frame
  by (simp add: publish_aq_lastState)

lemma publish_voc_field:
  "voc (lastState (publish classify cfg r s)) =
     (if aq_differs classify cfg r s then rVoc r else voc (lastState s))"
  unfolding publish_unfold publish_temp_frame publish_humidity_frame publish_co2_frame
  by (simp add: publish_aq_lastState)

lemma publish_updates:
  "updates AirQuality (emitted s (publish classify cfg r s)) =
     (if aq_differs classify cfg r s
      then [of_int (classify (rHumidity r) (rRadonStAvg r) (rCo2 r) (rVoc r))] else [])"
  "updates VOCDensity (emitted s (publish classify cfg r s)) =
     (if aq_differs classify cfg r s then [rVoc r] else [])"
  "updates CarbonDioxideLevel (emitted s (publish classify cfg r s)) =
     (if co2Service cfg \<and> rCo2 r \<noteq> co2 (lastState s) then [rCo2 r] else [])"
  "updates CurrentRelativeHumidity (emitted s (publish classify cfg r s)) =
     (if humidityService cfg \<and> rHumidity r \<noteq> humidity (lastState s)
      then [rHumidity r] else [])"
  "updates CurrentTemperature (emitted s (publish classify cfg r s)) =
     (if tempService cfg \<and> rTemp r \<noteq> temp (lastState s) then [rTemp r] else [])"
  unfolding emitted_append [OF publish_effects]
  by (simp_all add: updates_append)

lemma emitted_trans:
  assumes "effects s1 = effects s @ a" and "effects s2 = effects s1 @ b"
  shows "emitted s s2 = emitted s s1 @ emitted s1 s2"
  using assms by (simp add: emitted_def)

lemma aq_differs_cong:
  assumes "lastState a = lastState b"
  shows "aq_differs classify cfg r a = aq_differs classify cfg r b"
  using assms by (simp add: aq_differs_def)

lemma publish_emitted_cong:
  assumes "lastState a = lastState b"
  shows "emitted a (publish classify cfg r a) = emitted b (publish classify cfg r b)"
  unfolding emitted_append [OF publish_effects]
  using assms aq_differs_cong [OF assms] by simp

lemma publish_lastState_fields:
  "lastState (publish classify cfg r s) =
     \<lparr> aq = aq (lastState (publish classify cfg r s)),
       voc = voc (lastState (publish classify cfg r s)),
       co2 = co2 (lastState (publish classify cfg r s)),
       humidity = humidity (lastState (publish classify cfg r s)),
       temp = temp (lastState (publish classify cfg r s)) \<rparr>"
  by simp

lemma publish_lastState_cong:
  assumes "lastState a = lastState b"
  shows "lastState (publish classify cfg r a) = lastState (publish classify cfg r b)"
proof -
  have "aq (lastState (publish classify cfg r a)) = aq (lastState (publish classify cfg r b))"
    "voc (lastState (publish classify cfg r a)) = voc (lastState (publish classify cfg r b))"
    "co2 (lastState (publish classify cfg r a)) = co2 (lastState (publish classify cfg r b))"
    "humidity (lastState (publish classify cfg r a))
      = humidity (lastState (publish classify cfg r b))"
    "temp (lastState (publish classify cfg r a)) = temp (lastState (publish classify cfg r b))"
    using assms aq_differs_cong [OF assms]
    by (simp_all add: publish_aq_field publish_voc_field publish_co2_field
        publish_humidity_field publish_temp_field)
  then show ?thesis
    using publish_lastState_fields [of classify cfg r a]
      publish_lastState_fields [of classify cfg r b]
    by simp
qed

section \<open>Properties of the session driver\<close>

lemma reconcile_proceed:
  assumes "reaches_connect e"
  shows "reconcile e s = (Proceed, s\<lparr>effects := effects s @ reconciled e\<rparr>)"
  using assms
  by (cases "periState e")
    (simp_all add: reaches_connect_def reconcile_def reconciled_def emit_def)

lemma filter_sink_reconciled: "filter is_sink (reconciled e) = []"
  by (simp add: reconciled_def)

lemma filter_sink_disconnect: "filter is_sink (disconnect e) = []"
  by (simp add: disconnect_def)

lemma main_connect_timeout:
  assumes "reaches_connect e" and "peripheral s = Some peri"
    and "connectOutcome e = ConnectTimeout"
  shows "main cfg e s =
     (None, s\<lparr>mainTimer := Some (Timeout (freq cfg)),
              effects := effects s @ (if mainTimer s \<noteq> None then [ClearMainTimer] else [])
                @ reconciled e
                @ [LogInfo ''connect to'', ConnectAsync, LogWarn ''connect has timed out.'',
                   CancelConnect, Sleep 3000, QueueAdd MainTask]\<rparr>)"
  using assms
  by (simp add: main_def reconcile_proceed reaches_connect_def connect_def emit_def Let_def)

lemma main_sentinel:
  assumes "reaches_connect e" and "peripheral s = Some peri"
    and "connectOutcome e = ConnectOK"
    and "readOutcome e = ReadOK buf \<or> readOutcome e = ReadLate buf"
    and "decodePayload buf = Inr r" and "rCo2 r = 0xFFFF \<or> rVoc r = 0xFFFF"
  shows "main cfg e s =
     (None, s\<lparr>mainTimer := Some (Timeout (freq cfg)),
              effects := effects s @ (if mainTimer s \<noteq> None then [ClearMainTimer] else [])
                @ reconciled e @ [LogInfo ''connect to'', ConnectAsync]
                @ (if readOutcome e = ReadOK buf
                   then [UpdateRssi, DiscoverCharacteristics, ReadAsync] @ disconnect e
                   else [UpdateRssi, DiscoverCharacteristics,
                         LogWarn ''get collection has timed out.'']
                          @ disconnect e @ [ReadAsync] @ disconnect e)
                @ [LogInfo ''rssi data'', LogWarn ''sensor value is invalid.'']\<rparr>)"
  using assms
  by (auto simp: main_def reconcile_proceed reaches_connect_def connect_def getCollection_def
        emit_def Let_def)

lemma updates_acquired: "updates ch (acquired e s buf) = []"
  by (simp add: acquired_def reconciled_def disconnect_def updates_append)

lemma updates_written: "updates ch (written cfg e peri r) = []"
  by (simp add: written_def)

lemma writeInflux_written:
  "writeInflux cfg e peri r s = s\<lparr>effects := effects s @ written cfg e peri r\<rparr>"
  by (simp add: writeInflux_def written_def emit_def)

lemma acquired_state_fields:
  "lastState (acquired_state cfg e s buf) = lastState s"
  "peripheral (acquired_state cfg e s buf) = peripheral s"
  "scanning (acquired_state cfg e s buf) = scanning s"
  "effects (acquired_state cfg e s buf) = effects s @ acquired e s buf"
  by (simp_all add: acquired_state_def)

lemma main_read:
  assumes "reads_buffer e buf" and "peripheral s = Some peri"
    and "decodePayload buf = Inr r" and "rCo2 r \<noteq> 0xFFFF \<and> rVoc r \<noteq> 0xFFFF"
  shows "main cfg e s =
     (None, emit [Sleep 3000]
        (writeInflux cfg e peri r
           (publish airQuality cfg r (acquired_state cfg e s buf))))"
  using assms
  by (auto simp: main_def reconcile_proceed reaches_connect_def reads_buffer_def connect_def
        getCollection_def emit_def Let_def acquired_state_def acquired_def)

lemma main_read_effects:
  assumes "reads_buffer e buf" and "peripheral s = Some peri"
    and "decodePayload buf = Inr r" and "rCo2 r \<noteq> 0xFFFF \<and> rVoc r \<noteq> 0xFFFF"
  shows "effects (snd (main cfg e s)) = effects s @
     (acquired e s buf @ emitted s (publish airQuality cfg r s) @ written cfg e peri r
        @ [Sleep 3000])"
proof -
  have l: "lastState (acquired_state cfg e s buf) = lastState s"
    by (rule acquired_state_fields)
  have "effects (publish airQuality cfg r (acquired_state cfg e s buf))
      = effects (acquired_state cfg e s buf)
          @ emitted (acquired_state cfg e s buf)
              (publish airQuality cfg r (acquired_state cfg e s buf))"
    unfolding emitted_append [OF publish_effects] by (rule publish_effects)
  then have "effects (publish airQuality cfg r (acquired_state cfg e s buf))
      = effects s @ acquired e s buf @ emitted s (publish airQuality cfg r s)"
    unfolding publish_emitted_cong [OF l] acquired_state_fields by simp
  then show ?thesis
    unfolding main_read [OF assms] by (simp add: writeInflux_written emit_def)
qed

lemma main_read_updates:
  assumes "reads_buffer e buf" and "peripheral s = Some peri"
    and "decodePayload buf = Inr r" and "rCo2 r \<noteq> 0xFFFF \<and> rVoc r \<noteq> 0xFFFF"
  shows "updates ch (emitted s (snd (main cfg e s)))
    = updates ch (emitted s (publish airQuality cfg r s))"
  unfolding emitted_append [OF main_read_effects [OF assms]]
  by (simp add: updates_append updates_acquired updates_written)

lemma main_read_frame:
  assumes "reads_buffer e buf" and "peripheral s = Some peri"
    and "decodePayload buf = Inr r" and "rCo2 r \<noteq> 0xFFFF \<and> rVoc r \<noteq> 0xFFFF"
  shows "fst (main cfg e s) = None"
    and "peripheral (snd (main cfg e s)) = Some peri"
    and "lastState (snd (main cfg e s)) = lastState (publish airQuality cfg r s)"
proof -
  have l: "lastState (acquired_state cfg e s buf) = lastState s"
    by (rule acquired_state_fields)
  show "fst (main cfg e s) = None"
    unfolding main_read [OF assms] by simp
  show "peripheral (snd (main cfg e s)) = Some peri"
    unfolding main_read [OF assms]
    using assms(2)
    by (simp add: writeInflux_written emit_def publish_frame acquired_state_fields)
  show "lastState (snd (main cfg e s)) = lastState (publish airQuality cfg r s)"
    unfolding main_read [OF assms]
    using publish_lastState_cong [OF l]
    by (simp add: writeInflux_written emit_def)
qed

lemma decoded_co2_nonneg:
  assumes "decodePayload buf = Inr r"
  shows "0 \<le> rCo2 r"
proof -
  from assms have "r = derive (payload_fields buf)"
    by (simp add: decodePayload_fields split: if_splits)
  then show ?thesis
    by (simp add: derive_def)
qed

lemma main_read_co2:
  assumes "reads_buffer e buf" and "peripheral s = Some peri"
    and "decodePayload buf = Inr r" and "rCo2 r \<noteq> 0xFFFF \<and> rVoc r \<noteq> 0xFFFF"
  shows "updates CarbonDioxideLevel (emitted s (snd (main cfg e s)))
      = (if co2Service cfg \<and> rCo2 r \<noteq> co2 (lastState s) then [rCo2 r] else [])"
    and "co2 (lastState (snd (main cfg e s)))
      = (if co2Service cfg \<and> rCo2 r \<noteq> co2 (lastState s) then rCo2 r else co2 (lastState s))"
  unfolding main_read_updates [OF assms] main_read_frame(3) [OF assms]
  by (simp_all add: publish_updates(3) publish_co2_field)

lemma main_read_twice:
  assumes "reads_buffer e buf" and "peripheral s = Some peri"
    and "decodePayload buf = Inr r" and "rCo2 r \<noteq> 0xFFFF \<and> rVoc r \<noteq> 0xFFFF"
    and "reads_buffer e2 buf2" and "decodePayload buf2 = Inr r2"
    and "rCo2 r2 \<noteq> 0xFFFF \<and> rVoc r2 \<noteq> 0xFFFF"
    and "rCo2 r2 = rCo2 r" and "co2Service cfg"
  shows "updates CarbonDioxideLevel
      (emitted (snd (main cfg e s)) (snd (main cfg e2 (snd (main cfg e s))))) = []"
    and "updates CarbonDioxideLevel (emitted s (snd (main cfg e2 (snd (main cfg e s)))))
      = (if rCo2 r \<noteq> co2 (lastState s) then [rCo2 r] else [])"
proof -
  note first = assms(1-4)
  have p: "peripheral (snd (main cfg e s)) = Some peri"
    by (rule main_read_frame(2) [OF first])
  note second = assms(5) p assms(6,7)
  have rec: "co2 (lastState (snd (main cfg e s))) = rCo2 r"
    using assms(9) by (simp add: main_read_co2(2) [OF first])
  show silent: "updates CarbonDioxideLevel
      (emitted (snd (main cfg e s)) (snd (main cfg e2 (snd (main cfg e s))))) = []"
    using rec assms(8) by (simp add: main_read_co2(1) [OF second])
  have "emitted s (snd (main cfg e2 (snd (main cfg e s))))
      = emitted s (snd (main cfg e s))
          @ emitted (snd (main cfg e s)) (snd (main cfg e2 (snd (main cfg e s))))"
    by (rule emitted_trans [OF main_read_effects [OF first] main_read_effects [OF second]])
  then show "updates CarbonDioxideLevel (emitted s (snd (main cfg e2 (snd (main cfg e s)))))
      = (if rCo2 r \<noteq> co2 (lastState s) then [rCo2 r] else [])"
    using silent assms(9) by (simp add: updates_append main_read_co2(1) [OF first])
qed

text \<open>
  Claim C3. Whenever a cycle decodes a reading whose CO2 or VOC value is 0xFFFF, the cycle
  updates no characteristic and writes no telemetry point, \<open>lastState\<close> is left unchanged
  and the cached handle is kept; the cycle ends normally after the warning, without the
  retry that follows a failure of the transport. The session after the cycle is the
  session before it with the interval timer re-armed and the trace of the radio commands
  and the two log lines added.
\<close>

theorem sentinel_reading_discarded:
  assumes "reaches_connect e" and "peripheral s = Some peri"
    and "connectOutcome e = ConnectOK"
    and "readOutcome e = ReadOK buf \<or> readOutcome e = ReadLate buf"
    and "decodePayload buf = Inr r" and "rCo2 r = 0xFFFF \<or> rVoc r = 0xFFFF"
  shows "main cfg e s =
     (None, s\<lparr>mainTimer := Some (Timeout (freq cfg)),
              effects := effects s @ (if mainTimer s \<noteq> None then [ClearMainTimer] else [])
                @ reconciled e @ [LogInfo ''connect to'', ConnectAsync]
                @ (if readOutcome e = ReadOK buf
                   then [UpdateRssi, DiscoverCharacteristics, ReadAsync] @ disconnect e
                   else [UpdateRssi, DiscoverCharacteristics,
                         LogWarn ''get collection has timed out.'']
                          @ disconnect e @ [ReadAsync] @ disconnect e)
                @ [LogInfo ''rssi data'', LogWarn ''sensor value is invalid.'']\<rparr>)
    \<and> fst (main cfg e s) = None
    \<and> filter is_sink (emitted s (snd (main cfg e s))) = []
    \<and> lastState (snd (main cfg e s)) = lastState s
    \<and> peripheral (snd (main cfg e s)) = peripheral s
    \<and> scanning (snd (main cfg e s)) = scanning s
    \<and> last (effects (snd (main cfg e s))) = LogWarn ''sensor value is invalid.''
    \<and> QueueAdd MainTask \<notin> set (emitted s (snd (main cfg e s)))
    \<and> QueueAdd ScanTask \<notin> set (emitted s (snd (main cfg e s)))"
proof -
  note m = main_sentinel [OF assms, of cfg]
  have em: "emitted s (snd (main cfg e s)) =
      (if mainTimer s \<noteq> None then [ClearMainTimer] else [])
        @ reconciled e @ [LogInfo ''connect to'', ConnectAsync]
        @ (if readOutcome e = ReadOK buf
           then [UpdateRssi, DiscoverCharacteristics, ReadAsync] @ disconnect e
           else [UpdateRssi, DiscoverCharacteristics,
                 LogWarn ''get collection has timed out.'']
                  @ disconnect e @ [ReadAsync] @ disconnect e)
        @ [LogInfo ''rssi data'', LogWarn ''sensor value is invalid.'']"
    by (rule emitted_append) (simp add: m)
  have "filter is_sink (emitted s (snd (main cfg e s))) = []"
    unfolding em by (simp add: filter_sink_reconciled filter_sink_disconnect)
  moreover have "QueueAdd MainTask \<notin> set (emitted s (snd (main cfg e s)))"
    unfolding em by (simp add: reconciled_def disconnect_def)
  moreover have "QueueAdd ScanTask \<notin> set (emitted s (snd (main cfg e s)))"
    unfolding em by (simp add: reconciled_def disconnect_def)
  moreover have "last (effects (snd (main cfg e s))) = LogWarn ''sensor value is invalid.''"
    by (simp add: m)
  ultimately show ?thesis
    using m by simp
qed

text \<open>
  With the telemetry and every facet enabled, the sentinel payload (CO2 field 0xFFFF)
  read from the cached device leaves the session as it was, apart from the timer and the
  trace.
\<close>

theorem sentinel_reading_discarded_witness:
  "reaches_connect (sample_env\<lparr>readOutcome := ReadOK sentinel_payload\<rparr>)
   \<and> peripheral connected_state = Some sample_peripheral
   \<and> decodePayload sentinel_payload = Inr sentinel_reading
   \<and> rCo2 sentinel_reading = 0xFFFF
   \<and> influx sample_config
   \<and> fst (main sample_config (sample_env\<lparr>readOutcome := ReadOK sentinel_payload\<rparr>)
        connected_state) = None
   \<and> filter is_sink
       (emitted connected_state
          (snd (main sample_config (sample_env\<lparr>readOutcome := ReadOK sentinel_payload\<rparr>)
             connected_state))) = []
   \<and> lastState
       (snd (main sample_config (sample_env\<lparr>readOutcome := ReadOK sentinel_payload\<rparr>)
          connected_state)) = lastState connected_state
   \<and> peripheral
       (snd (main sample_config (sample_env\<lparr>readOutcome := ReadOK sentinel_payload\<rparr>)
          connected_state)) = peripheral connected_state"
proof -
  let ?e = "sample_env\<lparr>readOutcome := ReadOK sentinel_payload\<rparr>"
  have h1: "reaches_connect ?e"
    by (simp add: reaches_connect_def sample_env_def)
  have h2: "peripheral connected_state = Some sample_peripheral"
    by (simp add: connected_state_def)
  have h3: "connectOutcome ?e = ConnectOK"
    by (simp add: sample_env_def)
  have h4: "readOutcome ?e = ReadOK sentinel_payload \<or> readOutcome ?e = ReadLate sentinel_payload"
    by simp
  have c: "rCo2 sentinel_reading = 0xFFFF"
    by (simp add: sentinel_reading_def)
  then have h6: "rCo2 sentinel_reading = 0xFFFF \<or> rVoc sentinel_reading = 0xFFFF"
    by (rule disjI1)
  have i: "influx sample_config"
    by (simp add: influx_def truthy_def sample_config_def)
  note t = sentinel_reading_discarded [OF h1 h2 h3 h4 decode_sentinel h6, of sample_config]
  from t h1 h2 decode_sentinel c i show ?thesis
    by blast
qed

text \<open>
  Claim C7. When the connect phase exceeds its timeout, the connect attempt is cancelled,
  no characteristic is updated and no telemetry is written in that cycle, the cycle ends
  with a wait of 3 seconds followed by the submission of a new cycle to the queue, and
  the session is otherwise as before: the cached handle, \<open>lastState\<close> and the scanning flag
  are unchanged. The connect phase itself changes nothing but the trace, from whatever
  state it starts in; the only other field written during the cycle is the interval timer,
  which every cycle with a cached handle re-arms at its start, before the connect phase.
\<close>

theorem connect_timeout_retry:
  assumes "reaches_connect e" and "peripheral s = Some peri"
    and "connectOutcome e = ConnectTimeout"
  shows "main cfg e s =
     (None, s\<lparr>mainTimer := Some (Timeout (freq cfg)),
              effects := effects s @ (if mainTimer s \<noteq> None then [ClearMainTimer] else [])
                @ reconciled e
                @ [LogInfo ''connect to'', ConnectAsync, LogWarn ''connect has timed out.'',
                   CancelConnect, Sleep 3000, QueueAdd MainTask]\<rparr>)
    \<and> filter is_sink (emitted s (snd (main cfg e s))) = []
    \<and> CancelConnect \<in> set (emitted s (snd (main cfg e s)))
    \<and> peripheral (snd (main cfg e s)) = peripheral s
    \<and> lastState (snd (main cfg e s)) = lastState s
    \<and> scanning (snd (main cfg e s)) = scanning s
    \<and> connect e s1 =
        (False, s1\<lparr>effects := effects s1
           @ [ConnectAsync, LogWarn ''connect has timed out.'', CancelConnect]\<rparr>)"
proof -
  note m = main_connect_timeout [OF assms, of cfg]
  have ph: "connect e s1 =
        (False, s1\<lparr>effects := effects s1
           @ [ConnectAsync, LogWarn ''connect has timed out.'', CancelConnect]\<rparr>)"
    using assms(3) by (simp add: connect_def emit_def)
  have em: "emitted s (snd (main cfg e s)) =
      (if mainTimer s \<noteq> None then [ClearMainTimer] else [])
        @ reconciled e
        @ [LogInfo ''connect to'', ConnectAsync, LogWarn ''connect has timed out.'',
           CancelConnect, Sleep 3000, QueueAdd MainTask]"
    by (rule emitted_append) (simp add: m)
  have "filter is_sink (emitted s (snd (main cfg e s))) = []"
    unfolding em by (simp add: filter_sink_reconciled)
  moreover have "CancelConnect \<in> set (emitted s (snd (main cfg e s)))"
    unfolding em by simp
  ultimately show ?thesis
    using m ph by simp
qed

text \<open>A connect that times out on the cached, disconnected device of a fresh session.\<close>

theorem connect_timeout_retry_witness:
  "reaches_connect (sample_env\<lparr>connectOutcome := ConnectTimeout\<rparr>)
   \<and> peripheral connected_state = Some sample_peripheral
   \<and> main sample_config (sample_env\<lparr>connectOutcome := ConnectTimeout\<rparr>) connected_state =
       (None, connected_state\<lparr>mainTimer := Some (Timeout (Some 60000)),
          effects := [LogInfo ''connect to'', ConnectAsync,
            LogWarn ''connect has timed out.'', CancelConnect, Sleep 3000,
            QueueAdd MainTask]\<rparr>)"
proof -
  let ?e = "sample_env\<lparr>connectOutcome := ConnectTimeout\<rparr>"
  have h1: "reaches_connect ?e"
    by (simp add: reaches_connect_def sample_env_def)
  have h2: "peripheral connected_state = Some sample_peripheral"
    by (simp add: connected_state_def)
  have h3: "connectOutcome ?e = ConnectTimeout"
    by simp
  have f: "freq sample_config = Some 60000"
    by (simp add: freq_def sample_config_def)
  have r: "reconciled ?e = []"
    by (simp add: reconciled_def sample_env_def)
  have t: "mainTimer connected_state = None \<and> effects connected_state = []"
    by (simp add: connected_state_def initial_def)
  show ?thesis
    using connect_timeout_retry [OF h1 h2 h3, of sample_config] h1 h2 f r t
    by simp
qed

text \<open>
  Claim C9. Calling \<open>scan\<close> while a scan is in progress changes nothing: no second
  discovery is started, no second listener is registered, and the scanning flag, the
  cached handle and the rest of the session state are as before.
\<close>

theorem scan_while_scanning:
  assumes "scanning s"
  shows "scan s = s \<and> emitted s (scan s) = []"
  using assms by (simp add: scan_def emitted_def)

text \<open>A first call starts the scan; a second call during the scan returns the same state.\<close>

theorem scan_while_scanning_witness:
  "scanning (scan initial) \<and> scan (scan initial) = scan initial
   \<and> effects (scan (scan initial))
       = [LogInfo ''scanning...'', SetScanTimeout 50000, OnDiscover, StartScanning]"
proof -
  have a: "scanning (scan initial)"
    by (simp add: scan_def initial_def emit_def)
  have "effects (scan initial)
      = [LogInfo ''scanning...'', SetScanTimeout 50000, OnDiscover, StartScanning]"
    by (simp add: scan_def initial_def emit_def)
  then show ?thesis
    using scan_while_scanning [OF a] a by simp
qed

subsection \<open>Publishing on change\<close>

lemma sample_cycle:
  "reads_buffer sample_env sample_payload"
  "peripheral connected_state = Some sample_peripheral"
  "rCo2 sample_reading \<noteq> 0xFFFF \<and> rVoc sample_reading \<noteq> 0xFFFF"
  "co2Service sample_config"
  "rCo2 sample_reading = 800"
  by (simp_all add: reads_buffer_def reaches_connect_def sample_env_def connected_state_def
      sample_reading_def co2Service_def sample_config_def)

lemma first_cycle_recorded:
  "peripheral first_cycle = Some sample_peripheral"
  "co2 (lastState first_cycle) = 800"
  "updates CarbonDioxideLevel (emitted connected_state first_cycle) = [800]"
proof -
  note c = sample_cycle(1,2) decode_sample sample_cycle(3)
  show "peripheral first_cycle = Some sample_peripheral"
    unfolding first_cycle_def by (rule main_read_frame(2) [OF c])
  have i: "co2 (lastState connected_state) = - 1"
    by (simp add: connected_state_def initial_def)
  show "co2 (lastState first_cycle) = 800"
    unfolding first_cycle_def main_read_co2(2) [OF c]
    using sample_cycle(4,5) i by simp
  show "updates CarbonDioxideLevel (emitted connected_state first_cycle) = [800]"
    unfolding first_cycle_def main_read_co2(1) [OF c]
    using sample_cycle(4,5) i by simp
qed

text \<open>
  Claim C6, as the code has it. In a cycle that reads and decodes a reading without a
  sentinel value, each enabled facet is updated exactly when the newly derived value
  differs from the one in \<open>lastState\<close>, and \<open>lastState\<close> takes the new value exactly
  then; for the air-quality facet the value is the pair of the index and the VOC value,
  which are emitted together whenever either of the two differs. A second such cycle
  with the same CO2 value emits no CO2 update. Two consecutive successful reads with
  identical CO2 values therefore produce at most one CO2 update: exactly one, on the
  first read, when the value differs from the one recorded before it, as it always does
  at the first read of a session, where the recorded value is -1; and none when the
  value was recorded already.
\<close>

theorem publish_on_change:
  assumes "reads_buffer e buf" and "peripheral s = Some peri"
    and "decodePayload buf = Inr r" and "rCo2 r \<noteq> 0xFFFF \<and> rVoc r \<noteq> 0xFFFF"
  shows "fst (main cfg e s) = None
   \<and> updates AirQuality (emitted s (snd (main cfg e s))) =
     (if aq_differs airQuality cfg r s
      then [of_int (airQuality (rHumidity r) (rRadonStAvg r) (rCo2 r) (rVoc r))] else [])
   \<and> updates VOCDensity (emitted s (snd (main cfg e s))) =
     (if aq_differs airQuality cfg r s then [rVoc r] else [])
   \<and> updates CarbonDioxideLevel (emitted s (snd (main cfg e s))) =
     (if co2Service cfg \<and> rCo2 r \<noteq> co2 (lastState s) then [rCo2 r] else [])
   \<and> updates CurrentRelativeHumidity (emitted s (snd (main cfg e s))) =
     (if humidityService cfg \<and> rHumidity r \<noteq> humidity (lastState s)
      then [rHumidity r] else [])
   \<and> updates CurrentTemperature (emitted s (snd (main cfg e s))) =
     (if tempService cfg \<and> rTemp r \<noteq> temp (lastState s) then [rTemp r] else [])
   \<and> aq (lastState (snd (main cfg e s))) =
     (if aq_differs airQuality cfg r s
      then airQuality (rHumidity r) (rRadonStAvg r) (rCo2 r) (rVoc r) else aq (lastState s))
   \<and> voc (lastState (snd (main cfg e s))) =
     (if aq_differs airQuality cfg r s then rVoc r else voc (lastState s))
   \<and> co2 (lastState (snd (main cfg e s))) =
     (if co2Service cfg \<and> rCo2 r \<noteq> co2 (lastState s) then rCo2 r else co2 (lastState s))
   \<and> humidity (lastState (snd (main cfg e s))) =
     (if humidityService cfg \<and> rHumidity r \<noteq> humidity (lastState s)
      then rHumidity r else humidity (lastState s))
   \<and> temp (lastState (snd (main cfg e s))) =
     (if tempService cfg \<and> rTemp r \<noteq> temp (lastState s) then rTemp r
      else temp (lastState s))
   \<and> (reads_buffer e2 buf2 \<and> decodePayload buf2 = Inr r2
        \<and> (rCo2 r2 \<noteq> 0xFFFF \<and> rVoc r2 \<noteq> 0xFFFF) \<and> rCo2 r2 = rCo2 r \<and> co2Service cfg
        \<longrightarrow>
        updates CarbonDioxideLevel
          (emitted (snd (main cfg e s)) (snd (main cfg e2 (snd (main cfg e s))))) = []
        \<and> updates CarbonDioxideLevel
            (emitted s (snd (main cfg e2 (snd (main cfg e s)))))
          = (if rCo2 r \<noteq> co2 (lastState s) then [rCo2 r] else []))
   \<and> (reads_buffer e2 buf2 \<and> decodePayload buf2 = Inr r2
        \<and> (rCo2 r2 \<noteq> 0xFFFF \<and> rVoc r2 \<noteq> 0xFFFF) \<and> rCo2 r2 = rCo2 r \<and> co2Service cfg
        \<and> co2 (lastState s) = - 1
        \<longrightarrow>
        updates CarbonDioxideLevel
          (emitted s (snd (main cfg e2 (snd (main cfg e s))))) = [rCo2 r])"
proof -
  note u = main_read_updates [OF assms, of _ cfg]
  note l = main_read_frame(3) [OF assms, of cfg]
  have c1: "fst (main cfg e s) = None"
    by (rule main_read_frame(1) [OF assms])
  have c2: "updates AirQuality (emitted s (snd (main cfg e s))) =
     (if aq_differs airQuality cfg r s
      then [of_int (airQuality (rHumidity r) (rRadonStAvg r) (rCo2 r) (rVoc r))] else [])"
    unfolding u by (rule publish_updates)
  have c3: "updates VOCDensity (emitted s (snd (main cfg e s))) =
     (if aq_differs airQuality cfg r s then [rVoc r] else [])"
    unfolding u by (rule publish_updates)
  have c4: "updates CarbonDioxideLevel (emitted s (snd (main cfg e s))) =
     (if co2Service cfg \<and> rCo2 r \<noteq> co2 (lastState s) then [rCo2 r] else [])"
    unfolding u by (rule publish_updates)
  have c5: "updates CurrentRelativeHumidity (emitted s (snd (main cfg e s))) =
     (if humidityService cfg \<and> rHumidity r \<noteq> humidity (lastState s)
      then [rHumidity r] else [])"
    unfolding u by (rule publish_updates)
  have c6: "updates CurrentTemperature (emitted s (snd (main cfg e s))) =
     (if tempService cfg \<and> rTemp r \<noteq> temp (lastState s) then [rTemp r] else [])"
    unfolding u by (rule publish_updates)
  have c7: "aq (lastState (snd (main cfg e s))) =
     (if aq_differs airQuality cfg r s
      then airQuality (rHumidity r) (rRadonStAvg r) (rCo2 r) (rVoc r) else aq (lastState s))"
    unfolding l by (rule publish_aq_field)
  have c8: "voc (lastState (snd (main cfg e s))) =
     (if aq_differs airQuality cfg r s then rVoc r else voc (lastState s))"
    unfolding l by (rule publish_voc_field)
  have c9: "co2 (lastState (snd (main cfg e s))) =
     (if co2Service cfg \<and> rCo2 r \<noteq> co2 (lastState s) then rCo2 r else co2 (lastState s))"
    unfolding l by (rule publish_co2_field)
  have c10: "humidity (lastState (snd (main cfg e s))) =
     (if humidityService cfg \<and> rHumidity r \<noteq> humidity (lastState s)
      then rHumidity r else humidity (lastState s))"
    unfolding l by (rule publish_humidity_field)
  have c11: "temp (lastState (snd (main cfg e s))) =
     (if tempService cfg \<and> rTemp r \<noteq> temp (lastState s) then rTemp r
      else temp (lastState s))"
    unfolding l by (rule publish_temp_field)
  have c12: "updates CarbonDioxideLevel
          (emitted (snd (main cfg e s)) (snd (main cfg e2 (snd (main cfg e s))))) = []
        \<and> updates CarbonDioxideLevel
            (emitted s (snd (main cfg e2 (snd (main cfg e s)))))
          = (if rCo2 r \<noteq> co2 (lastState s) then [rCo2 r] else [])"
    if h: "reads_buffer e2 buf2 \<and> decodePayload buf2 = Inr r2
        \<and> (rCo2 r2 \<noteq> 0xFFFF \<and> rVoc r2 \<noteq> 0xFFFF) \<and> rCo2 r2 = rCo2 r \<and> co2Service cfg"
  proof -
    from h have h1: "reads_buffer e2 buf2" and h2: "decodePayload buf2 = Inr r2"
      and h3: "rCo2 r2 \<noteq> 0xFFFF \<and> rVoc r2 \<noteq> 0xFFFF" and h4: "rCo2 r2 = rCo2 r"
      and h5: "co2Service cfg"
      by simp_all
    show ?thesis
      using main_read_twice [OF assms h1 h2 h3 h4 h5] by simp
  qed
  have c13: "updates CarbonDioxideLevel
          (emitted s (snd (main cfg e2 (snd (main cfg e s))))) = [rCo2 r]"
    if h: "reads_buffer e2 buf2 \<and> decodePayload buf2 = Inr r2
        \<and> (rCo2 r2 \<noteq> 0xFFFF \<and> rVoc r2 \<noteq> 0xFFFF) \<and> rCo2 r2 = rCo2 r \<and> co2Service cfg
        \<and> co2 (lastState s) = - 1"
  proof -
    have "rCo2 r \<noteq> co2 (lastState s)"
      using decoded_co2_nonneg [OF assms(3)] h by simp
    then show ?thesis
      using c12 h by simp
  qed
  show ?thesis
    using c12 c13
    by (intro conjI impI) (rule c1 c2 c3 c4 c5 c6 c7 c8 c9 c10 c11 | blast)+
qed

text \<open>
  The first read of a session publishes its CO2 value 800; a second read of the same
  payload publishes no CO2 value, so that the two reads together publish one.
\<close>

theorem publish_on_change_witness:
  "reads_buffer sample_env sample_payload
   \<and> peripheral connected_state = Some sample_peripheral
   \<and> decodePayload sample_payload = Inr sample_reading
   \<and> (rCo2 sample_reading \<noteq> 0xFFFF \<and> rVoc sample_reading \<noteq> 0xFFFF)
   \<and> co2Service sample_config \<and> co2 (lastState connected_state) = - 1
   \<and> updates CarbonDioxideLevel
       (emitted connected_state
          (snd (main sample_config sample_env connected_state))) = [800]
   \<and> updates CarbonDioxideLevel
       (emitted (snd (main sample_config sample_env connected_state))
          (snd (main sample_config sample_env
             (snd (main sample_config sample_env connected_state))))) = []
   \<and> updates CarbonDioxideLevel
       (emitted connected_state
          (snd (main sample_config sample_env
             (snd (main sample_config sample_env connected_state))))) = [800]"
proof -
  note c = sample_cycle(1,2) decode_sample sample_cycle(3)
  note t = publish_on_change [OF c, where cfg = sample_config and ?e2.0 = sample_env
      and ?buf2.0 = sample_payload and ?r2.0 = sample_reading]
  have i: "co2 (lastState connected_state) = - 1"
    by (simp add: connected_state_def initial_def)
  have one: "updates CarbonDioxideLevel
       (emitted connected_state (snd (main sample_config sample_env connected_state)))
     = (if co2Service sample_config \<and> rCo2 sample_reading \<noteq> co2 (lastState connected_state)
        then [rCo2 sample_reading] else [])"
    using t by blast
  have first: "updates CarbonDioxideLevel
       (emitted connected_state (snd (main sample_config sample_env connected_state)))
     = [800]"
    unfolding one using sample_cycle(4,5) i by simp
  have two: "updates CarbonDioxideLevel
       (emitted (snd (main sample_config sample_env connected_state))
          (snd (main sample_config sample_env
             (snd (main sample_config sample_env connected_state))))) = []"
    using t c sample_cycle(4) by blast
  have "updates CarbonDioxideLevel
       (emitted connected_state
          (snd (main sample_config sample_env
             (snd (main sample_config sample_env connected_state))))) = [rCo2 sample_reading]"
    using t c sample_cycle(4) i by blast
  then have both: "updates CarbonDioxideLevel
       (emitted connected_state
          (snd (main sample_config sample_env
             (snd (main sample_config sample_env connected_state))))) = [800]"
    using sample_cycle(5) by simp
  from c sample_cycle(4) i first two both show ?thesis
    by blast
qed

text \<open>
  Claim C6 as stated fails: after a first read of the sample payload, the second and the
  third read are two consecutive successful reads with the identical CO2 value 800, and
  together they produce no CO2 update.
\<close>

theorem repeated_read_counterexample:
  "decodePayload sample_payload = Inr sample_reading
   \<and> rCo2 sample_reading = 800
   \<and> co2Service sample_config
   \<and> fst (main sample_config sample_env first_cycle) = None
   \<and> fst (main sample_config sample_env second_cycle) = None
   \<and> updates CarbonDioxideLevel (emitted first_cycle second_cycle) = []
   \<and> updates CarbonDioxideLevel (emitted second_cycle third_cycle) = []
   \<and> updates CarbonDioxideLevel (emitted first_cycle third_cycle) = []"
proof -
  note c = sample_cycle(1) first_cycle_recorded(1) decode_sample sample_cycle(3)
  have p2: "peripheral second_cycle = Some sample_peripheral"
    unfolding second_cycle_def by (rule main_read_frame(2) [OF c])
  note c2 = sample_cycle(1) p2 decode_sample sample_cycle(3)
  have f2: "fst (main sample_config sample_env first_cycle) = None"
    by (rule main_read_frame(1) [OF c])
  have f3: "fst (main sample_config sample_env second_cycle) = None"
    by (rule main_read_frame(1) [OF c2])
  have same: "rCo2 sample_reading = co2 (lastState first_cycle)"
    using first_cycle_recorded(2) sample_cycle(5) by simp
  have a: "updates CarbonDioxideLevel (emitted first_cycle second_cycle) = []"
    unfolding second_cycle_def main_read_co2(1) [OF c] using same by simp
  have b: "updates CarbonDioxideLevel (emitted second_cycle third_cycle) = []"
    unfolding third_cycle_def second_cycle_def
    by (rule main_read_twice(1) [OF c sample_cycle(1) decode_sample sample_cycle(3) refl
          sample_cycle(4)])
  have "updates CarbonDioxideLevel (emitted first_cycle third_cycle)
      = (if rCo2 sample_reading \<noteq> co2 (lastState first_cycle)
         then [rCo2 sample_reading] else [])"
    unfolding third_cycle_def second_cycle_def
    by (rule main_read_twice(2) [OF c sample_cycle(1) decode_sample sample_cycle(3) refl
          sample_cycle(4)])
  then have t: "updates CarbonDioxideLevel (emitted first_cycle third_cycle) = []"
    using same by simp
  from decode_sample sample_cycle(5) sample_cycle(4) f2 f3 a b t show ?thesis
    by blast
qed

section \<open>Properties of the operation serializer\<close>

lemma run_snoc: "run (ins @ [i]) q = react i (run ins q)"
  by (induction ins arbitrary: q) simp_all

lemma admitted_append: "admitted (xs @ ys) = admitted xs @ admitted ys"
  by (induction xs rule: admitted.induct) simp_all

lemma started_append: "started (xs @ ys) = started xs @ started ys"
  by (induction xs rule: started.induct) simp_all

lemma completed_append: "completed (xs @ ys) = completed xs @ completed ys"
  by (induction xs rule: completed.induct) simp_all

lemma serial_from_append:
  "serial_from cur (xs @ ys) =
     (case serial_from cur xs of None \<Rightarrow> None | Some c \<Rightarrow> serial_from c ys)"
  by (induction cur xs rule: serial_from.induct) simp_all

lemma queue_inv_init: "queue_inv [] globalQueue"
  by (simp add: queue_inv_def globalQueue_def in_execution_def)

lemma queue_inv_add:
  assumes "queue_inv ins q"
  shows "queue_inv (ins @ [Add t]) (queue_add t q)"
  using assms
  by (cases "running q"; cases "waiting q")
    (auto simp: queue_inv_def queue_add_def dequeue_def admitted_append started_append
      completed_append serial_from_append in_execution_def)

lemma queue_inv_settle:
  assumes "queue_inv ins q"
  shows "queue_inv (ins @ [Settle t ok]) (settle t ok q)"
  using assms
  by (cases "running q"; cases "waiting q")
    (auto simp: queue_inv_def settle_def dequeue_def admitted_append started_append
      completed_append serial_from_append in_execution_def)

lemma queue_inv_run: "queue_inv ins (run ins globalQueue)"
proof (induction ins rule: rev_induct)
  case Nil
  show ?case
    by (simp add: queue_inv_init)
next
  case (snoc i ins)
  show ?case
  proof (cases i)
    case (Add t)
    with snoc show ?thesis
      by (simp add: run_snoc queue_inv_add)
  next
    case (Settle t ok)
    with snoc show ?thesis
      by (simp add: run_snoc queue_inv_settle)
  qed
qed

text \<open>
  Claim C8. After any sequence of submissions and completions, in any interleaving and
  whatever the tasks' results: at most one task is in execution; the history is serial,
  that is, every task starts while no other task is in execution, so that no two
  executions overlap; the completed tasks, followed by the task in execution and the
  waiting tasks, are the submitted tasks in the order of their admission, so that tasks
  start and complete in that order and none is started twice; and whenever no task is in
  execution no task is waiting, so that every submitted task has then run and completed
  exactly once, also those submitted after a task that failed.
\<close>

theorem serializer_fifo:
  "length (running (run ins globalQueue)) \<le> 1
   \<and> serial_from None (history (run ins globalQueue))
       = Some (in_execution (run ins globalQueue))
   \<and> completed (history (run ins globalQueue)) @ running (run ins globalQueue)
       @ waiting (run ins globalQueue) = admitted ins
   \<and> started (history (run ins globalQueue))
       = completed (history (run ins globalQueue)) @ running (run ins globalQueue)
   \<and> (running (run ins globalQueue) = [] \<longrightarrow>
        waiting (run ins globalQueue) = []
        \<and> started (history (run ins globalQueue)) = admitted ins
        \<and> completed (history (run ins globalQueue)) = admitted ins)"
proof -
  have "queue_inv ins (run ins globalQueue)"
    by (rule queue_inv_run)
  then show ?thesis
    by (auto simp: queue_inv_def split: if_splits)
qed

text \<open>
  Three tasks are submitted while the first one runs; the first fails, and the other two
  still run, one after the other, in the order of their submission.
\<close>

theorem serializer_fifo_witness:
  "run [Add (1 :: nat), Add 2, Add 3, Settle 1 False, Settle 2 True, Settle 3 True] globalQueue
     = \<lparr> maxPending = 1, waiting = [], running = [],
         history = [Started 1, Settled 1 False, Started 2, Settled 2 True,
                    Started 3, Settled 3 True] \<rparr>
   \<and> completed (history (run [Add (1 :: nat), Add 2, Add 3, Settle 1 False, Settle 2 True,
        Settle 3 True] globalQueue)) = [1, 2, 3]"
proof -
  have r: "run [Add (1 :: nat), Add 2, Add 3, Settle 1 False, Settle 2 True, Settle 3 True]
      globalQueue
     = \<lparr> maxPending = 1, waiting = [], running = [],
         history = [Started 1, Settled 1 False, Started 2, Settled 2 True,
                    Started 3, Settled 3 True] \<rparr>"
    by (simp add: globalQueue_def queue_add_def settle_def dequeue_def)
  have "running (run [Add (1 :: nat), Add 2, Add 3, Settle 1 False, Settle 2 True,
      Settle 3 True] globalQueue) = []"
    unfolding r by simp
  then have "completed (history (run [Add (1 :: nat), Add 2, Add 3, Settle 1 False,
      Settle 2 True, Settle 3 True] globalQueue))
      = admitted [Add (1 :: nat), Add 2, Add 3, Settle 1 False, Settle 2 True, Settle 3 True]"
    using serializer_fifo [of "[Add (1 :: nat), Add 2, Add 3, Settle 1 False, Settle 2 True,
      Settle 3 True]"]
    by blast
  then show ?thesis
    using r by simp
qed

end
